theory Spec2Isabelle
  imports Main
begin

section \<open>Data model\<close>

text \<open>
  The negotiation hook \<^verbatim>\<open>useWebRTC\<close> exists twice in the repository: the hook that
  keeps a connection-state map and an \<^verbatim>\<open>isInitialized\<close> flag (called the current hook
  below), and an older, shorter hook (called the legacy hook below). Both are embedded;
  the legacy definitions carry the prefix \<open>legacy\<close>.

  A signaling blob is opaque apart from its \<^verbatim>\<open>type\<close> field, which a network candidate
  does not have.
\<close>

record SignalData =
  sigType :: "string option"
  sigBody :: string

record MediaStreamTrack =
  kind :: string
  label :: string

record MediaStream =
  streamId :: string
  tracks :: "MediaStreamTrack list"

definition getVideoTracks :: "MediaStream \<Rightarrow> MediaStreamTrack list" where
  "getVideoTracks ms = filter (\<lambda>t. kind t = ''video'') (tracks ms)"

definition getAudioTracks :: "MediaStream \<Rightarrow> MediaStreamTrack list" where
  "getAudioTracks ms = filter (\<lambda>t. kind t = ''audio'') (tracks ms)"

text \<open>\<^verbatim>\<open>xs[0]\<close> of JavaScript: \<^verbatim>\<open>undefined\<close> on the empty array.\<close>

fun first :: "'a list \<Rightarrow> 'a option" where
  "first [] = None"
| "first (x # xs) = Some x"

record RTCRtpSender =
  track :: "MediaStreamTrack option"

text \<open>The participant of the legacy relay client (every field required but \<^verbatim>\<open>id\<close>).\<close>

record LegacyParticipant =
  idCompat :: "string option"
  userId :: string
  socketId :: string
  username :: string
  firstName :: string
  lastName :: string
  role :: string
  joinedAt :: string
  audioEnabled :: bool
  videoEnabled :: bool
  screenSharing :: bool
  handRaised :: bool

text \<open>The participant of the current relay client.\<close>

record Participant =
  userId :: string
  idCompat :: "string option"
  socketId :: "string option"
  username :: string
  firstName :: string
  lastName :: string
  role :: string
  joinedAt :: "string option"
  lastSeen :: "string option"
  audioEnabled :: "bool option"
  videoEnabled :: "bool option"
  screenSharing :: "bool option"
  handRaised :: "bool option"

text \<open>
  The connection primitive (\<^verbatim>\<open>simple-peer\<close>) is a black box. A \<^verbatim>\<open>Peer\<close> value records
  what the hook passes to its constructor, the identity of the object (\<open>pid\<close>, fresh for
  every \<^verbatim>\<open>new Peer\<close>), and which closure set was attached with \<^verbatim>\<open>peer.on\<close>, together
  with the variables those closures capture (user id and user name of the remote side).
\<close>

datatype Listeners =
    CreatePeerListeners string string
  | HandleOfferListeners string string
  | LegacyCreatePeerListeners string string
  | LegacyHandleOfferListeners string string

record Peer =
  pid :: nat
  initiator :: bool
  trickle :: bool
  localMedia :: MediaStream
  iceServers :: "string list"
  listeners :: Listeners

record PeerConnection =
  peerId :: string
  peer :: Peer
  stream :: "MediaStream option"
  userId :: string
  username :: string
  firstName :: "string option"
  lastName :: "string option"
  role :: "string option"
  audioEnabled :: "bool option"
  videoEnabled :: "bool option"
  screenSharing :: "bool option"

text \<open>
  Calls the hook makes on its collaborators, in order: the primitive (construct, signal,
  destroy, replace the track of a sender) and the relay client (\<^verbatim>\<open>sendOffer\<close>,
  \<^verbatim>\<open>sendAnswer\<close>, \<^verbatim>\<open>sendIceCandidate\<close>, each with its \<^verbatim>\<open>targetUserId\<close>).
\<close>

datatype Call =
    NewPeer Peer
  | PeerSignal nat SignalData
  | PeerDestroy nat
  | ReplaceTrack nat RTCRtpSender MediaStreamTrack
  | SendOffer string SignalData
  | SendAnswer string SignalData
  | SendIceCandidate string SignalData

text \<open>
  What the black box does when called, taken as a parameter: whether \<^verbatim>\<open>signal\<close> and
  \<^verbatim>\<open>destroy\<close> throw, and the senders of the private \<^verbatim>\<open>_pc\<close> object (\<open>None\<close> when the
  field is absent).
\<close>

record Primitive =
  signalThrows :: "nat \<Rightarrow> SignalData \<Rightarrow> bool"
  destroyThrows :: "nat \<Rightarrow> bool"
  pcSenders :: "nat \<Rightarrow> RTCRtpSender list option"

datatype Completion = Returned | Threw

text \<open>
  The state both hooks share: the trace of calls, the next object identity, the React
  state \<^verbatim>\<open>peers\<close> and the ref \<^verbatim>\<open>peersRef.current\<close> (the registry). State updaters are
  applied in program order.

  In the current hook the two lists can be one array object: the \<^verbatim>\<open>stream\<close> listener
  stores the array it returns to \<^verbatim>\<open>setPeers\<close> in \<^verbatim>\<open>peersRef.current\<close> as well. The flag
  \<open>aliased\<close> says so, because \<^verbatim>\<open>peersRef.current.push\<close> then changes the array held in
  \<^verbatim>\<open>peers\<close> too. The legacy hook never stores one array in both places.
\<close>

record Registry =
  calls :: "Call list"
  nextPid :: nat
  peers :: "PeerConnection list"
  peersRef :: "PeerConnection list"

record HookState = Registry +
  connectionStates :: "string \<rightharpoonup> string"
  isInitialized :: bool
  aliased :: bool

record LegacyHookState = Registry +
  isInitiator :: bool

text \<open>An inbound relay message; \<open>payload\<close> is its \<^verbatim>\<open>offer\<close>, \<^verbatim>\<open>answer\<close> or \<^verbatim>\<open>candidate\<close> field.\<close>

record SignalMsg =
  fromUserId :: string
  fromUsername :: string
  payload :: SignalData

section \<open>The primitive's interface\<close>

definition stunServers :: "string list" where
  "stunServers = [''stun:stun.l.google.com:19302'', ''stun:stun1.l.google.com:19302'']"

definition newPeer ::
  "bool \<Rightarrow> MediaStream \<Rightarrow> Listeners \<Rightarrow> 'a Registry_scheme \<Rightarrow> Peer \<times> 'a Registry_scheme" where
  "newPeer ini strm ls s =
     (let p = \<lparr>pid = nextPid s, initiator = ini, trickle = False, localMedia = strm,
                iceServers = stunServers, listeners = ls\<rparr>
      in (p, s\<lparr>calls := calls s @ [NewPeer p], nextPid := Suc (nextPid s)\<rparr>))"

definition peerSignal ::
  "Primitive \<Rightarrow> Peer \<Rightarrow> SignalData \<Rightarrow> 'a Registry_scheme \<Rightarrow> Completion \<times> 'a Registry_scheme" where
  "peerSignal P p x s =
     (if signalThrows P (pid p) x then Threw else Returned,
      s\<lparr>calls := calls s @ [PeerSignal (pid p) x]\<rparr>)"

definition peerDestroy ::
  "Primitive \<Rightarrow> Peer \<Rightarrow> 'a Registry_scheme \<Rightarrow> Completion \<times> 'a Registry_scheme" where
  "peerDestroy P p s =
     (if destroyThrows P (pid p) then Threw else Returned,
      s\<lparr>calls := calls s @ [PeerDestroy (pid p)]\<rparr>)"

text \<open>\<^verbatim>\<open>try { ... } catch (error) { console.error(...) }\<close>: the effects stay, the throw does not.\<close>

definition catch :: "Completion \<times> 's \<Rightarrow> Completion \<times> 's" where
  "catch r = (Returned, snd r)"

text \<open>Sequencing: a throw skips the rest of the function body.\<close>

definition andThen :: "Completion \<times> 's \<Rightarrow> ('s \<Rightarrow> Completion \<times> 's) \<Rightarrow> Completion \<times> 's" where
  "andThen r f = (case fst r of Returned \<Rightarrow> f (snd r) | Threw \<Rightarrow> (Threw, snd r))"

section \<open>The current hook\<close>

text \<open>
  \<^verbatim>\<open>createPeer\<close>. The session is pushed onto \<^verbatim>\<open>peersRef.current\<close> in place, then
  \<^verbatim>\<open>setPeers\<close> builds a new array from the previous state and the session: when the two
  are one array, the previous state already holds the pushed session.
\<close>

definition createPeer ::
  "string \<Rightarrow> string \<Rightarrow> Participant \<Rightarrow> MediaStream \<Rightarrow> bool \<Rightarrow> HookState \<Rightarrow> Peer \<times> HookState" where
  "createPeer targetUserId targetUsername targetUserData strm ini s =
     (let (p, s1) = newPeer ini strm (CreatePeerListeners targetUserId targetUsername) s;
          peerConnection =
            \<lparr>peerId = targetUserId, peer = p, stream = None,
             userId = targetUserId, username = targetUsername,
             firstName = Some (Participant.firstName targetUserData),
             lastName = Some (Participant.lastName targetUserData),
             role = Some (Participant.role targetUserData),
             audioEnabled = Participant.audioEnabled targetUserData,
             videoEnabled = Participant.videoEnabled targetUserData,
             screenSharing = Participant.screenSharing targetUserData\<rparr>
      in (p, s1\<lparr>peersRef := peersRef s1 @ [peerConnection],
                 peers := (if aliased s1 then peers s1 @ [peerConnection] else peers s1) @
                          [peerConnection],
                 aliased := False,
                 connectionStates := (connectionStates s1)(targetUserId \<mapsto> ''connecting'')\<rparr>))"

definition removePeer :: "Primitive \<Rightarrow> string \<Rightarrow> HookState \<Rightarrow> Completion \<times> HookState" where
  "removePeer P uid s =
     (case find (\<lambda>p. userId p = uid) (peersRef s) of
        None \<Rightarrow> (Returned, s)
      | Some peerConnection \<Rightarrow>
          andThen (catch (peerDestroy P (peer peerConnection) s))
            (\<lambda>s1. (Returned,
               s1\<lparr>peersRef := filter (\<lambda>p. userId p \<noteq> uid) (peersRef s1),
                   peers := filter (\<lambda>p. userId p \<noteq> uid) (peers s1),
                   aliased := False,
                   connectionStates := (connectionStates s1)(uid := None)\<rparr>)))"

definition handleOffer ::
  "Primitive \<Rightarrow> MediaStream option \<Rightarrow> SignalMsg \<Rightarrow> HookState \<Rightarrow> Completion \<times> HookState" where
  "handleOffer P localStream dat s =
     (case localStream of
        None \<Rightarrow> (Returned, s)
      | Some ls \<Rightarrow>
          (case find (\<lambda>p. userId p = fromUserId dat) (peersRef s) of
             Some existingPeer \<Rightarrow> (Returned, s)
           | None \<Rightarrow>
               (let (p, s1) =
                      newPeer False ls (HandleOfferListeners (fromUserId dat) (fromUsername dat)) s
                in andThen (peerSignal P p (payload dat) s1)
                     (\<lambda>s2.
                        let peerConnection =
                              \<lparr>peerId = fromUserId dat, peer = p, stream = None,
                               userId = fromUserId dat, username = fromUsername dat,
                               firstName = Some (fromUsername dat),
                               lastName = Some '''',
                               role = Some ''attendee'',
                               audioEnabled = None, videoEnabled = None,
                               screenSharing = None\<rparr>
                        in (Returned,
                            s2\<lparr>peersRef := peersRef s2 @ [peerConnection],
                                peers :=
                                  (if aliased s2 then peers s2 @ [peerConnection]
                                   else peers s2) @ [peerConnection],
                                aliased := False,
                                connectionStates :=
                                  (connectionStates s2)(fromUserId dat \<mapsto> ''connecting'')\<rparr>)))))"

definition handleAnswer :: "Primitive \<Rightarrow> SignalMsg \<Rightarrow> HookState \<Rightarrow> Completion \<times> HookState" where
  "handleAnswer P dat s =
     (case find (\<lambda>p. userId p = fromUserId dat) (peersRef s) of
        Some peerConnection \<Rightarrow> catch (peerSignal P (peer peerConnection) (payload dat) s)
      | None \<Rightarrow> (Returned, s))"

definition handleIceCandidate ::
  "Primitive \<Rightarrow> SignalMsg \<Rightarrow> HookState \<Rightarrow> Completion \<times> HookState" where
  "handleIceCandidate P dat s =
     (case find (\<lambda>p. userId p = fromUserId dat) (peersRef s) of
        Some peerConnection \<Rightarrow> catch (peerSignal P (peer peerConnection) (payload dat) s)
      | None \<Rightarrow> (Returned, s))"

text \<open>
  \<^verbatim>\<open>initializeWebRTC\<close>; \<open>localUserId\<close> is the hook's \<^verbatim>\<open>userId\<close> argument, and the stream
  is optional because the function tests \<^verbatim>\<open>!stream\<close>.
\<close>

definition initializeWebRTC ::
  "string \<Rightarrow> Participant list \<Rightarrow> MediaStream option \<Rightarrow> HookState \<Rightarrow> HookState" where
  "initializeWebRTC localUserId participants strm s =
     (case strm of
        None \<Rightarrow> s
      | Some st \<Rightarrow>
          if isInitialized s then s
          else fold (\<lambda>participant s1.
                      if Participant.userId participant \<noteq> localUserId
                      then snd (createPeer (Participant.userId participant)
                                  (Participant.username participant) participant st True s1)
                      else s1)
                 participants (s\<lparr>isInitialized := True\<rparr>))"

text \<open>\<^verbatim>\<open>handleParticipantJoined\<close> only logs: the hook waits for the newcomer's offer.\<close>

definition handleParticipantJoined ::
  "string \<Rightarrow> Participant \<Rightarrow> MediaStream option \<Rightarrow> HookState \<Rightarrow> HookState" where
  "handleParticipantJoined localUserId user strm s = s"

definition handleParticipantLeft ::
  "Primitive \<Rightarrow> string \<Rightarrow> HookState \<Rightarrow> Completion \<times> HookState" where
  "handleParticipantLeft P uid s = removePeer P uid s"

text \<open>
  \<^verbatim>\<open>updateLocalStream\<close>: per registered session, the sender whose current track has the
  kind is looked up among the senders of \<^verbatim>\<open>_pc\<close>, and its track replaced.
\<close>

definition replaceKind ::
  "nat \<Rightarrow> RTCRtpSender list \<Rightarrow> string \<Rightarrow> MediaStreamTrack option \<Rightarrow> Call list" where
  "replaceKind i senders k newTrack =
     (case newTrack of
        None \<Rightarrow> []
      | Some t \<Rightarrow>
          (case find (\<lambda>sd. map_option kind (track sd) = Some k) senders of
             None \<Rightarrow> []
           | Some sender \<Rightarrow> [ReplaceTrack i sender t]))"

definition updatePeerTracks :: "Primitive \<Rightarrow> MediaStream \<Rightarrow> PeerConnection \<Rightarrow> Call list" where
  "updatePeerTracks P newStream peerConnection =
     (let videoTrack = first (getVideoTracks newStream);
          audioTrack = first (getAudioTracks newStream)
      in case pcSenders P (pid (peer peerConnection)) of
           None \<Rightarrow> []
         | Some senders \<Rightarrow>
             replaceKind (pid (peer peerConnection)) senders ''video'' videoTrack @
             replaceKind (pid (peer peerConnection)) senders ''audio'' audioTrack)"

definition updateLocalStream :: "Primitive \<Rightarrow> MediaStream \<Rightarrow> HookState \<Rightarrow> HookState" where
  "updateLocalStream P newStream s =
     s\<lparr>calls := calls s @ concat (map (updatePeerTracks P newStream) (peersRef s))\<rparr>"

definition cleanup :: "Primitive \<Rightarrow> HookState \<Rightarrow> Completion \<times> HookState" where
  "cleanup P s =
     (let s1 = fold (\<lambda>peerConnection s'. snd (catch (peerDestroy P (peer peerConnection) s')))
                 (peersRef s) (s\<lparr>isInitialized := False\<rparr>)
      in (Returned,
          s1\<lparr>peersRef := [], peers := [], aliased := False, connectionStates := Map.empty\<rparr>))"

text \<open>
  The listeners \<^verbatim>\<open>createPeer\<close> and \<^verbatim>\<open>handleOffer\<close> attach. The \<^verbatim>\<open>signal\<close> listener
  only calls the relay client, so it is a function from the blob to the calls made.
\<close>

fun signalListener :: "Listeners \<Rightarrow> SignalData \<Rightarrow> Call list" where
  "signalListener (CreatePeerListeners uid uname) signal =
     (if sigType signal = Some ''offer'' then [SendOffer uid signal]
      else if sigType signal = Some ''answer'' then [SendAnswer uid signal]
      else [SendIceCandidate uid signal])"
| "signalListener (HandleOfferListeners uid uname) signal =
     (if sigType signal = Some ''answer'' then [SendAnswer uid signal]
      else [SendIceCandidate uid signal])"
| "signalListener (LegacyCreatePeerListeners uid uname) signal =
     (if sigType signal = Some ''offer'' then [SendOffer uid signal]
      else if sigType signal = Some ''answer'' then [SendAnswer uid signal]
      else [])"
| "signalListener (LegacyHandleOfferListeners uid uname) signal =
     (if sigType signal = Some ''answer'' then [SendAnswer uid signal] else [])"

definition onSignal :: "Peer \<Rightarrow> SignalData \<Rightarrow> 'a Registry_scheme \<Rightarrow> 'a Registry_scheme" where
  "onSignal p signal s = s\<lparr>calls := calls s @ signalListener (listeners p) signal\<rparr>"

text \<open>The \<^verbatim>\<open>stream\<close> listener, the same text in both closure sets; \<open>uid\<close> is captured.\<close>

definition onStream :: "string \<Rightarrow> MediaStream \<Rightarrow> HookState \<Rightarrow> HookState" where
  "onStream uid remoteStream s =
     (let updatedPeers =
            map (\<lambda>p. if userId p = uid then p\<lparr>stream := Some remoteStream\<rparr> else p) (peers s)
      in s\<lparr>peers := updatedPeers, peersRef := updatedPeers, aliased := True,
            connectionStates := (connectionStates s)(uid \<mapsto> ''connected'')\<rparr>)"

text \<open>The \<^verbatim>\<open>connect\<close> listener of \<^verbatim>\<open>createPeer\<close> (the one of \<^verbatim>\<open>handleOffer\<close> only logs).\<close>

definition onConnect :: "string \<Rightarrow> HookState \<Rightarrow> HookState" where
  "onConnect uid s = s\<lparr>connectionStates := (connectionStates s)(uid \<mapsto> ''connected'')\<rparr>"

definition onError :: "string \<Rightarrow> HookState \<Rightarrow> HookState" where
  "onError uid s = s\<lparr>connectionStates := (connectionStates s)(uid \<mapsto> ''failed'')\<rparr>"

definition onClose :: "Primitive \<Rightarrow> string \<Rightarrow> HookState \<Rightarrow> Completion \<times> HookState" where
  "onClose P uid s = removePeer P uid s"

section \<open>Event sequences of the current hook\<close>

text \<open>
  The membership and signaling events the hook receives. \<open>localUserId\<close> is the hook's
  argument \<^verbatim>\<open>userId\<close>.

  The hook's effect registers \<^verbatim>\<open>handleOffer\<close>, \<^verbatim>\<open>handleAnswer\<close> and
  \<^verbatim>\<open>handleIceCandidate\<close> with the relay client again whenever \<^verbatim>\<open>localStream\<close> changes, and
  removes none of them; the relay client calls every handler registered for an event, in
  registration order, and catches what a handler throws (its effects up to the throw
  stay). \<open>closures\<close> is the \<^verbatim>\<open>localStream\<close> each registered handler set has captured, in
  registration order: on a hook mounted without media that later got the camera stream
  it is \<open>[None, Some camera]\<close>.
\<close>

datatype Event =
    Initialize "Participant list" "MediaStream option"
  | InboundOffer SignalMsg
  | InboundAnswer SignalMsg
  | InboundCandidate SignalMsg
  | ParticipantLeft string
  | Cleanup

fun step ::
  "Primitive \<Rightarrow> string \<Rightarrow> MediaStream option list \<Rightarrow> Event \<Rightarrow> HookState \<Rightarrow> HookState" where
  "step P localUserId closures (Initialize participants strm) s =
     initializeWebRTC localUserId participants strm s"
| "step P localUserId closures (InboundOffer dat) s =
     fold (\<lambda>localStream s1. snd (handleOffer P localStream dat s1)) closures s"
| "step P localUserId closures (InboundAnswer dat) s =
     fold (\<lambda>localStream s1. snd (handleAnswer P dat s1)) closures s"
| "step P localUserId closures (InboundCandidate dat) s =
     fold (\<lambda>localStream s1. snd (handleIceCandidate P dat s1)) closures s"
| "step P localUserId closures (ParticipantLeft uid) s = snd (handleParticipantLeft P uid s)"
| "step P localUserId closures Cleanup s = snd (cleanup P s)"

definition run ::
  "Primitive \<Rightarrow> string \<Rightarrow> MediaStream option list \<Rightarrow> Event list \<Rightarrow> HookState
     \<Rightarrow> HookState" where
  "run P localUserId closures events s = fold (step P localUserId closures) events s"

definition initialState :: HookState where
  "initialState =
     \<lparr>calls = [], nextPid = 0, peers = [], peersRef = [],
      connectionStates = Map.empty, isInitialized = False, aliased = False\<rparr>"

fun isSignaling :: "Event \<Rightarrow> bool" where
  "isSignaling (InboundOffer dat) = True"
| "isSignaling (InboundAnswer dat) = True"
| "isSignaling (InboundCandidate dat) = True"
| "isSignaling ev = False"

fun isAnswerOrCandidate :: "Event \<Rightarrow> bool" where
  "isAnswerOrCandidate (InboundAnswer dat) = True"
| "isAnswerOrCandidate (InboundCandidate dat) = True"
| "isAnswerOrCandidate ev = False"

text \<open>Reading the trace of calls.\<close>

fun isDestroy :: "Call \<Rightarrow> bool" where
  "isDestroy (PeerDestroy i) = True"
| "isDestroy c = False"

fun isNewPeer :: "Call \<Rightarrow> bool" where
  "isNewPeer (NewPeer p) = True"
| "isNewPeer c = False"

fun isReplaceOf :: "string \<Rightarrow> Call \<Rightarrow> bool" where
  "isReplaceOf k (ReplaceTrack i sender t) = (map_option kind (track sender) = Some k)"
| "isReplaceOf k c = False"

definition hasSender :: "Primitive \<Rightarrow> PeerConnection \<Rightarrow> string \<Rightarrow> bool" where
  "hasSender P peerConnection k =
     (case pcSenders P (pid (peer peerConnection)) of
        None \<Rightarrow> False
      | Some senders \<Rightarrow> find (\<lambda>sd. map_option kind (track sd) = Some k) senders \<noteq> None)"

section \<open>The legacy hook\<close>

text \<open>
  \<^verbatim>\<open>Array.prototype.sort\<close> with a comparator is stable; \<^verbatim>\<open>localeCompare\<close> is the
  platform's, taken as a parameter.
\<close>

fun insertBy :: "('a \<Rightarrow> 'a \<Rightarrow> int) \<Rightarrow> 'a \<Rightarrow> 'a list \<Rightarrow> 'a list" where
  "insertBy cmp x [] = [x]"
| "insertBy cmp x (y # ys) = (if cmp x y \<le> 0 then x # y # ys else y # insertBy cmp x ys)"

definition sortBy :: "('a \<Rightarrow> 'a \<Rightarrow> int) \<Rightarrow> 'a list \<Rightarrow> 'a list" where
  "sortBy cmp xs = foldr (insertBy cmp) xs []"

fun findIndex :: "('a \<Rightarrow> bool) \<Rightarrow> 'a list \<Rightarrow> int" where
  "findIndex f [] = - 1"
| "findIndex f (x # xs) =
     (if f x then 0 else (let i = findIndex f xs in if i < 0 then - 1 else i + 1))"

text \<open>
  \<^verbatim>\<open>createPeer\<close> of the legacy hook; \<open>isInit\<close> is the \<^verbatim>\<open>isInitiator\<close> its closure captured
  at the last render.
\<close>

definition legacyCreatePeer ::
  "bool \<Rightarrow> string \<Rightarrow> string \<Rightarrow> string \<Rightarrow> MediaStream \<Rightarrow> LegacyHookState
     \<Rightarrow> Peer \<times> LegacyHookState" where
  "legacyCreatePeer isInit targetUserId targetUsername targetSocketId strm s =
     (let (p, s1) = newPeer isInit strm (LegacyCreatePeerListeners targetUserId targetUsername) s;
          peerConnection =
            \<lparr>peerId = targetSocketId, peer = p, stream = None,
             userId = targetUserId, username = targetUsername,
             firstName = None, lastName = None, role = None,
             audioEnabled = None, videoEnabled = None, screenSharing = None\<rparr>
      in (p, s1\<lparr>peersRef := peersRef s1 @ [peerConnection],
                 peers := peers s1 @ [peerConnection]\<rparr>))"

definition legacyHandleOffer ::
  "Primitive \<Rightarrow> MediaStream option \<Rightarrow> SignalMsg \<Rightarrow> LegacyHookState
     \<Rightarrow> Completion \<times> LegacyHookState" where
  "legacyHandleOffer P localStream dat s =
     (case localStream of
        None \<Rightarrow> (Returned, s)
      | Some ls \<Rightarrow>
          (let (p, s1) =
                 newPeer False ls
                   (LegacyHandleOfferListeners (fromUserId dat) (fromUsername dat)) s
           in andThen (peerSignal P p (payload dat) s1)
                (\<lambda>s2.
                   let peerConnection =
                         \<lparr>peerId = fromUserId dat, peer = p, stream = None,
                          userId = fromUserId dat, username = fromUsername dat,
                          firstName = None, lastName = None, role = None,
                          audioEnabled = None, videoEnabled = None, screenSharing = None\<rparr>
                   in (Returned,
                       s2\<lparr>peersRef := peersRef s2 @ [peerConnection],
                           peers := peers s2 @ [peerConnection]\<rparr>))))"

text \<open>
  \<^verbatim>\<open>initializeWebRTC\<close> of the legacy hook. The sort is in place, so the loop runs over
  the sorted array; \<^verbatim>\<open>setIsInitiator\<close> takes effect at the next render, so the peers of
  this call are built with the flag of the state the call started in.
\<close>

definition legacyInitializeWebRTC ::
  "(string \<Rightarrow> string \<Rightarrow> int) \<Rightarrow> string \<Rightarrow> LegacyParticipant list \<Rightarrow> MediaStream
     \<Rightarrow> LegacyHookState \<Rightarrow> LegacyHookState" where
  "legacyInitializeWebRTC localeCompare localUserId participants strm s =
     (let sortedParticipants =
            sortBy (\<lambda>a b. localeCompare (LegacyParticipant.joinedAt a)
                             (LegacyParticipant.joinedAt b)) participants;
          currentUserIndex =
            findIndex (\<lambda>p. LegacyParticipant.userId p = localUserId) sortedParticipants
      in fold (\<lambda>participant s1.
                 if LegacyParticipant.userId participant \<noteq> localUserId
                 then snd (legacyCreatePeer (isInitiator s)
                             (LegacyParticipant.userId participant)
                             (LegacyParticipant.username participant)
                             (LegacyParticipant.socketId participant) strm s1)
                 else s1)
            sortedParticipants (s\<lparr>isInitiator := (currentUserIndex = 0)\<rparr>))"

definition legacyInitialState :: LegacyHookState where
  "legacyInitialState =
     \<lparr>calls = [], nextPid = 0, peers = [], peersRef = [], isInitiator = False\<rparr>"

section \<open>Scenario data\<close>

text \<open>Bob is the local participant; Alice and Carol are remote.\<close>

definition quiet :: Primitive where
  "quiet = \<lparr>signalThrows = (\<lambda>i x. False), destroyThrows = (\<lambda>i. False),
            pcSenders = (\<lambda>i. None)\<rparr>"

definition faulty :: Primitive where
  "faulty = \<lparr>signalThrows = (\<lambda>i x. True), destroyThrows = (\<lambda>i. True),
             pcSenders = (\<lambda>i. None)\<rparr>"

definition micTrack :: MediaStreamTrack where
  "micTrack = \<lparr>kind = ''audio'', label = ''mic''\<rparr>"

definition camTrack :: MediaStreamTrack where
  "camTrack = \<lparr>kind = ''video'', label = ''cam''\<rparr>"

definition screenTrack :: MediaStreamTrack where
  "screenTrack = \<lparr>kind = ''video'', label = ''screen''\<rparr>"

definition camera :: MediaStream where
  "camera = \<lparr>streamId = ''camera'', tracks = [micTrack, camTrack]\<rparr>"

definition screenShare :: MediaStream where
  "screenShare = \<lparr>streamId = ''screen'', tracks = [micTrack, screenTrack]\<rparr>"

text \<open>A primitive whose connection carries a microphone sender only.\<close>

definition audioOnly :: Primitive where
  "audioOnly = \<lparr>signalThrows = (\<lambda>i x. False), destroyThrows = (\<lambda>i. False),
                pcSenders = (\<lambda>i. Some [\<lparr>track = Some micTrack\<rparr>])\<rparr>"

text \<open>A primitive whose connection carries a microphone and a camera sender.\<close>

definition audioVideo :: Primitive where
  "audioVideo = \<lparr>signalThrows = (\<lambda>i x. False), destroyThrows = (\<lambda>i. False),
                 pcSenders = (\<lambda>i. Some [\<lparr>track = Some micTrack\<rparr>, \<lparr>track = Some camTrack\<rparr>])\<rparr>"

definition alice :: Participant where
  "alice = \<lparr>Participant.userId = ''alice'', idCompat = None, socketId = Some ''s1'',
            Participant.username = ''alice01'', Participant.firstName = ''Alice'', Participant.lastName = ''Archer'',
            Participant.role = ''host'', joinedAt = None, lastSeen = None,
            Participant.audioEnabled = Some True, Participant.videoEnabled = Some True,
            Participant.screenSharing = Some False, handRaised = None\<rparr>"

definition carol :: Participant where
  "carol = \<lparr>Participant.userId = ''carol'', idCompat = None, socketId = Some ''s3'',
            Participant.username = ''carol03'', Participant.firstName = ''Carol'', Participant.lastName = ''Cole'',
            Participant.role = ''host'', joinedAt = None, lastSeen = None,
            Participant.audioEnabled = Some True, Participant.videoEnabled = Some False,
            Participant.screenSharing = Some False, handRaised = None\<rparr>"

definition legacyAlice :: LegacyParticipant where
  "legacyAlice = \<lparr>LegacyParticipant.idCompat = None, LegacyParticipant.userId = ''alice'', LegacyParticipant.socketId = ''s1'',
                  LegacyParticipant.username = ''alice01'', LegacyParticipant.firstName = ''Alice'', LegacyParticipant.lastName = ''Archer'',
                  LegacyParticipant.role = ''host'', LegacyParticipant.joinedAt = ''2024-01-01T10:00:00Z'',
                  LegacyParticipant.audioEnabled = True, LegacyParticipant.videoEnabled = True,
                  LegacyParticipant.screenSharing = False, LegacyParticipant.handRaised = False\<rparr>"

definition offerBlob :: SignalData where
  "offerBlob = \<lparr>sigType = Some ''offer'', sigBody = ''v=0 offer''\<rparr>"

definition answerBlob :: SignalData where
  "answerBlob = \<lparr>sigType = Some ''answer'', sigBody = ''v=0 answer''\<rparr>"

definition candidateBlob :: SignalData where
  "candidateBlob = \<lparr>sigType = None, sigBody = ''candidate:1''\<rparr>"

definition carolOffer :: SignalMsg where
  "carolOffer = \<lparr>fromUserId = ''carol'', fromUsername = ''carol03'', payload = offerBlob\<rparr>"

definition carolAnswer :: SignalMsg where
  "carolAnswer = \<lparr>fromUserId = ''carol'', fromUsername = ''carol03'', payload = answerBlob\<rparr>"

definition carolCandidate :: SignalMsg where
  "carolCandidate =
     \<lparr>fromUserId = ''carol'', fromUsername = ''carol03'', payload = candidateBlob\<rparr>"

definition aliceOffer :: SignalMsg where
  "aliceOffer = \<lparr>fromUserId = ''alice'', fromUsername = ''alice01'', payload = offerBlob\<rparr>"

definition aliceAnswer :: SignalMsg where
  "aliceAnswer = \<lparr>fromUserId = ''alice'', fromUsername = ''alice01'', payload = answerBlob\<rparr>"

text \<open>Bob's hook after Carol's offer was accepted.\<close>

definition carolJoined :: HookState where
  "carolJoined = snd (handleOffer quiet (Some camera) carolOffer initialState)"

definition bob :: Participant where
  "bob = \<lparr>Participant.userId = ''bob'', idCompat = None, socketId = Some ''s2'',
          Participant.username = ''bob02'', Participant.firstName = ''Bob'',
          Participant.lastName = ''Baker'', Participant.role = ''attendee'',
          joinedAt = None, lastSeen = None,
          Participant.audioEnabled = Some True, Participant.videoEnabled = Some True,
          Participant.screenSharing = Some False, handRaised = None\<rparr>"

section \<open>Vocabulary of the statements\<close>

text \<open>
  A session built by \<^verbatim>\<open>createPeer\<close> as \<^verbatim>\<open>initializeWebRTC\<close> calls it: initiator, the given
  local stream attached, display fields copied from the participant.
\<close>

definition copiesParticipant :: "MediaStream \<Rightarrow> PeerConnection \<Rightarrow> Participant \<Rightarrow> bool" where
  "copiesParticipant st pc p =
     (peerId pc = Participant.userId p \<and> userId pc = Participant.userId p \<and>
      username pc = Participant.username p \<and> stream pc = None \<and>
      firstName pc = Some (Participant.firstName p) \<and>
      lastName pc = Some (Participant.lastName p) \<and>
      role pc = Some (Participant.role p) \<and>
      audioEnabled pc = Participant.audioEnabled p \<and>
      videoEnabled pc = Participant.videoEnabled p \<and>
      screenSharing pc = Participant.screenSharing p \<and>
      initiator (peer pc) \<and> \<not> trickle (peer pc) \<and> localMedia (peer pc) = st \<and>
      listeners (peer pc) = CreatePeerListeners (Participant.userId p) (Participant.username p))"

text \<open>
  A session built by \<^verbatim>\<open>handleOffer\<close>: responder, the local stream attached, display fields
  taken from the relay message.
\<close>

definition answersOffer :: "MediaStream \<Rightarrow> SignalMsg \<Rightarrow> PeerConnection \<Rightarrow> bool" where
  "answersOffer st dat pc =
     (peerId pc = fromUserId dat \<and> userId pc = fromUserId dat \<and>
      username pc = fromUsername dat \<and> stream pc = None \<and>
      firstName pc = Some (fromUsername dat) \<and> lastName pc = Some '''' \<and>
      role pc = Some ''attendee'' \<and>
      audioEnabled pc = None \<and> videoEnabled pc = None \<and> screenSharing pc = None \<and>
      \<not> initiator (peer pc) \<and> \<not> trickle (peer pc) \<and> localMedia (peer pc) = st \<and>
      listeners (peer pc) = HandleOfferListeners (fromUserId dat) (fromUsername dat))"

fun isInitialize :: "Event \<Rightarrow> bool" where
  "isInitialize (Initialize participants strm) = True"
| "isInitialize ev = False"

definition aliceAndCarol :: HookState where
  "aliceAndCarol =
     snd (handleOffer quiet (Some camera) carolOffer
       (initializeWebRTC ''bob'' [alice] (Some camera) initialState))"

text \<open>The same two sessions on a hook whose local stream has a microphone track only.\<close>

definition micOnly :: MediaStream where
  "micOnly = \<lparr>streamId = ''mic'', tracks = [micTrack]\<rparr>"

definition audioSessions :: HookState where
  "audioSessions =
     snd (handleOffer quiet (Some micOnly) carolOffer
       (initializeWebRTC ''bob'' [alice] (Some micOnly) initialState))"

section \<open>Looking a session up\<close>

lemma find_userId_None:
  "uid \<notin> userId ` set xs \<Longrightarrow> find (\<lambda>p. userId p = uid) xs = None"
  by (auto simp: find_None_iff)

lemma find_userId_Some:
  "uid \<in> userId ` set xs \<Longrightarrow>
     \<exists>pc. find (\<lambda>p. userId p = uid) xs = Some pc \<and> pc \<in> set xs \<and> userId pc = uid"
  by (cases "find (\<lambda>p. userId p = uid) xs") (auto simp: find_None_iff find_Some_iff)

lemma newPeer_fst:
  "fst (newPeer ini st ls s) =
     \<lparr>pid = nextPid s, initiator = ini, trickle = False, localMedia = st,
      iceServers = stunServers, listeners = ls\<rparr>"
  by (simp add: newPeer_def Let_def)

lemma newPeer_snd:
  "snd (newPeer ini st ls s) =
     s\<lparr>calls := calls s @ [NewPeer (fst (newPeer ini st ls s))], nextPid := Suc (nextPid s)\<rparr>"
  by (simp add: newPeer_def Let_def)

lemma carolJoined_peersRef:
  "peersRef carolJoined =
     [\<lparr>peerId = ''carol'',
       peer = \<lparr>pid = 0, initiator = False, trickle = False, localMedia = camera,
               iceServers = stunServers,
               listeners = HandleOfferListeners ''carol'' ''carol03''\<rparr>,
       stream = None, userId = ''carol'', username = ''carol03'',
       firstName = Some ''carol03'', lastName = Some '''', role = Some ''attendee'',
       audioEnabled = None, videoEnabled = None, screenSharing = None\<rparr>]"
  by (simp add: carolJoined_def handleOffer_def initialState_def carolOffer_def quiet_def
      newPeer_def peerSignal_def andThen_def Let_def)

section \<open>A participant leaves\<close>

lemma removePeer_absent:
  "uid \<notin> userId ` set (peersRef s) \<Longrightarrow> removePeer P uid s = (Returned, s)"
  by (simp add: removePeer_def find_userId_None)

lemma removePeer_present:
  assumes "find (\<lambda>p. userId p = uid) (peersRef s) = Some pc"
  shows "removePeer P uid s =
           (Returned,
            s\<lparr>calls := calls s @ [PeerDestroy (pid (peer pc))],
               peersRef := filter (\<lambda>p. userId p \<noteq> uid) (peersRef s),
               peers := filter (\<lambda>p. userId p \<noteq> uid) (peers s),
               aliased := False,
               connectionStates := (connectionStates s)(uid := None)\<rparr>)"
  using assms by (simp add: removePeer_def andThen_def catch_def peerDestroy_def)

text \<open>
  C6. When the registry holds a session for the user id, \<^verbatim>\<open>handleParticipantLeft\<close>
  removes it from the registry and from the exposed peer list, makes exactly one call on
  a collaborator, the \<^verbatim>\<open>destroy\<close> of that session's primitive (whether or not it throws;
  the session is the first one in the registry with the user id), and deletes the user id
  from the connection-state map. When the registry holds none,
  the state is returned as it was.
\<close>

theorem handleParticipantLeft_removes_or_noop:
  "(uid \<in> userId ` set (peersRef s) \<longrightarrow>
      (\<exists>pc \<in> set (peersRef s). userId pc = uid \<and>
         find (\<lambda>p. userId p = uid) (peersRef s) = Some pc \<and>
         calls (snd (handleParticipantLeft P uid s)) =
           calls s @ [PeerDestroy (pid (peer pc))]) \<and>
      fst (handleParticipantLeft P uid s) = Returned \<and>
      peersRef (snd (handleParticipantLeft P uid s)) =
        filter (\<lambda>p. userId p \<noteq> uid) (peersRef s) \<and>
      uid \<notin> userId ` set (peersRef (snd (handleParticipantLeft P uid s))) \<and>
      peers (snd (handleParticipantLeft P uid s)) = filter (\<lambda>p. userId p \<noteq> uid) (peers s) \<and>
      connectionStates (snd (handleParticipantLeft P uid s)) =
        (connectionStates s)(uid := None) \<and>
      uid \<notin> dom (connectionStates (snd (handleParticipantLeft P uid s)))) \<and>
   (uid \<notin> userId ` set (peersRef s) \<longrightarrow> handleParticipantLeft P uid s = (Returned, s))"
proof (intro conjI impI)
  assume "uid \<notin> userId ` set (peersRef s)"
  then show "handleParticipantLeft P uid s = (Returned, s)"
    by (simp add: handleParticipantLeft_def removePeer_absent)
next
  assume "uid \<in> userId ` set (peersRef s)"
  then obtain pc where pc: "find (\<lambda>p. userId p = uid) (peersRef s) = Some pc"
    "pc \<in> set (peersRef s)" "userId pc = uid"
    using find_userId_Some by blast
  note r = removePeer_present [OF pc(1), of P]
  show "\<exists>pc \<in> set (peersRef s). userId pc = uid \<and>
         find (\<lambda>p. userId p = uid) (peersRef s) = Some pc \<and>
         calls (snd (handleParticipantLeft P uid s)) = calls s @ [PeerDestroy (pid (peer pc))]"
    using pc by (intro bexI [of _ pc]) (simp_all add: handleParticipantLeft_def r)
  show "fst (handleParticipantLeft P uid s) = Returned"
    by (simp add: handleParticipantLeft_def r)
  show "peersRef (snd (handleParticipantLeft P uid s)) =
          filter (\<lambda>p. userId p \<noteq> uid) (peersRef s)"
    by (simp add: handleParticipantLeft_def r)
  then show "uid \<notin> userId ` set (peersRef (snd (handleParticipantLeft P uid s)))"
    by auto
  show "peers (snd (handleParticipantLeft P uid s)) = filter (\<lambda>p. userId p \<noteq> uid) (peers s)"
    by (simp add: handleParticipantLeft_def r)
  show "connectionStates (snd (handleParticipantLeft P uid s)) =
          (connectionStates s)(uid := None)"
    by (simp add: handleParticipantLeft_def r)
  then show "uid \<notin> dom (connectionStates (snd (handleParticipantLeft P uid s)))"
    by simp
qed

text \<open>
  Scenario C, with a primitive whose \<^verbatim>\<open>destroy\<close> throws: Carol's session goes, her
  primitive (object 0) is destroyed once; Alice, who has no session, changes nothing.
\<close>

theorem handleParticipantLeft_witness:
  "''carol'' \<in> userId ` set (peersRef carolJoined) \<and>
   ''alice'' \<notin> userId ` set (peersRef carolJoined) \<and>
   calls (snd (handleParticipantLeft faulty ''carol'' carolJoined)) =
     calls carolJoined @ [PeerDestroy 0] \<and>
   peersRef (snd (handleParticipantLeft faulty ''carol'' carolJoined)) = [] \<and>
   ''carol'' \<notin> dom (connectionStates (snd (handleParticipantLeft faulty ''carol'' carolJoined))) \<and>
   handleParticipantLeft faulty ''alice'' carolJoined = (Returned, carolJoined)"
proof -
  have m: "''carol'' \<in> userId ` set (peersRef carolJoined)"
    "''alice'' \<notin> userId ` set (peersRef carolJoined)"
    by (simp_all add: carolJoined_peersRef)
  show ?thesis
    using m handleParticipantLeft_removes_or_noop [of "''carol''" carolJoined faulty]
      handleParticipantLeft_removes_or_noop [of "''alice''" carolJoined faulty]
    by (simp add: carolJoined_peersRef)
qed

section \<open>Inbound answers and candidates\<close>

lemma handleAnswer_absent:
  "fromUserId dat \<notin> userId ` set (peersRef s) \<Longrightarrow> handleAnswer P dat s = (Returned, s)"
  by (simp add: handleAnswer_def find_userId_None)

lemma handleIceCandidate_absent:
  "fromUserId dat \<notin> userId ` set (peersRef s) \<Longrightarrow>
     handleIceCandidate P dat s = (Returned, s)"
  by (simp add: handleIceCandidate_def find_userId_None)

lemma handleAnswer_cases:
  "handleAnswer P dat s =
     (case find (\<lambda>p. userId p = fromUserId dat) (peersRef s) of
        None \<Rightarrow> (Returned, s)
      | Some pc \<Rightarrow>
          (Returned, s\<lparr>calls := calls s @ [PeerSignal (pid (peer pc)) (payload dat)]\<rparr>))"
  by (simp add: handleAnswer_def catch_def peerSignal_def split: option.splits)

lemma handleIceCandidate_cases:
  "handleIceCandidate P dat s =
     (case find (\<lambda>p. userId p = fromUserId dat) (peersRef s) of
        None \<Rightarrow> (Returned, s)
      | Some pc \<Rightarrow>
          (Returned, s\<lparr>calls := calls s @ [PeerSignal (pid (peer pc)) (payload dat)]\<rparr>))"
  by (simp add: handleIceCandidate_def catch_def peerSignal_def split: option.splits)

text \<open>
  C7. \<^verbatim>\<open>handleAnswer\<close> and \<^verbatim>\<open>handleIceCandidate\<close> never throw, whatever the primitive
  does, and never change the registry, the peer list or the connection-state map. For a
  user id without a session the whole state is unchanged (no call is made); for a user id
  with a session the blob is passed to that session's primitive (the first session in the
  registry with the user id), and nothing else is called.
\<close>

theorem answer_candidate_routing:
  "fst (handleAnswer P dat s) = Returned \<and> fst (handleIceCandidate P dat s) = Returned \<and>
   peersRef (snd (handleAnswer P dat s)) = peersRef s \<and>
   peersRef (snd (handleIceCandidate P dat s)) = peersRef s \<and>
   peers (snd (handleAnswer P dat s)) = peers s \<and>
   peers (snd (handleIceCandidate P dat s)) = peers s \<and>
   connectionStates (snd (handleAnswer P dat s)) = connectionStates s \<and>
   connectionStates (snd (handleIceCandidate P dat s)) = connectionStates s \<and>
   (fromUserId dat \<notin> userId ` set (peersRef s) \<longrightarrow>
      handleAnswer P dat s = (Returned, s) \<and> handleIceCandidate P dat s = (Returned, s)) \<and>
   (fromUserId dat \<in> userId ` set (peersRef s) \<longrightarrow>
      (\<exists>pc \<in> set (peersRef s). userId pc = fromUserId dat \<and>
         find (\<lambda>p. userId p = fromUserId dat) (peersRef s) = Some pc \<and>
         calls (snd (handleAnswer P dat s)) =
           calls s @ [PeerSignal (pid (peer pc)) (payload dat)] \<and>
         calls (snd (handleIceCandidate P dat s)) =
           calls s @ [PeerSignal (pid (peer pc)) (payload dat)]))"
proof -
  have known: "\<exists>pc \<in> set (peersRef s). userId pc = fromUserId dat \<and>
         find (\<lambda>p. userId p = fromUserId dat) (peersRef s) = Some pc \<and>
         calls (snd (handleAnswer P dat s)) =
           calls s @ [PeerSignal (pid (peer pc)) (payload dat)] \<and>
         calls (snd (handleIceCandidate P dat s)) =
           calls s @ [PeerSignal (pid (peer pc)) (payload dat)]"
    if "fromUserId dat \<in> userId ` set (peersRef s)"
  proof -
    from that obtain pc where pc: "find (\<lambda>p. userId p = fromUserId dat) (peersRef s) = Some pc"
      "pc \<in> set (peersRef s)" "userId pc = fromUserId dat"
      using find_userId_Some by blast
    show ?thesis
      using pc
      by (intro bexI [of _ pc]) (simp_all add: handleAnswer_cases handleIceCandidate_cases)
  qed
  show ?thesis
    using known
    by (simp add: handleAnswer_absent handleIceCandidate_absent)
       (simp add: handleAnswer_cases handleIceCandidate_cases split: option.splits)
qed

text \<open>
  With a primitive that throws on every \<^verbatim>\<open>signal\<close>: Carol's answer reaches her primitive
  (object 0) and the handler still returns; Alice's answer, for which there is no
  session, is dropped.
\<close>

theorem answer_candidate_routing_witness:
  "''carol'' \<in> userId ` set (peersRef carolJoined) \<and>
   ''alice'' \<notin> userId ` set (peersRef carolJoined) \<and>
   signalThrows faulty 0 answerBlob \<and>
   fst (handleAnswer faulty carolAnswer carolJoined) = Returned \<and>
   calls (snd (handleAnswer faulty carolAnswer carolJoined)) =
     calls carolJoined @ [PeerSignal 0 answerBlob] \<and>
   handleAnswer faulty aliceAnswer carolJoined = (Returned, carolJoined) \<and>
   handleIceCandidate faulty aliceAnswer carolJoined = (Returned, carolJoined)"
proof -
  have m: "fromUserId carolAnswer \<in> userId ` set (peersRef carolJoined)"
    "fromUserId aliceAnswer \<notin> userId ` set (peersRef carolJoined)"
    by (simp_all add: carolJoined_peersRef carolAnswer_def aliceAnswer_def)
  show ?thesis
    using m answer_candidate_routing [of faulty carolAnswer carolJoined]
      answer_candidate_routing [of faulty aliceAnswer carolJoined]
    by (simp add: carolJoined_peersRef carolAnswer_def aliceAnswer_def faulty_def)
qed

section \<open>Initialisation\<close>

lemma createPeer_registry:
  "\<exists>pc. peersRef (snd (createPeer (Participant.userId d) (Participant.username d) d st True s)) =
          peersRef s @ [pc] \<and>
        peers (snd (createPeer (Participant.userId d) (Participant.username d) d st True s)) =
          (if aliased s then peers s @ [pc, pc] else peers s @ [pc]) \<and>
        \<not> aliased (snd (createPeer (Participant.userId d) (Participant.username d) d st True s)) \<and>
        copiesParticipant st pc d \<and>
        calls (snd (createPeer (Participant.userId d) (Participant.username d) d st True s)) =
          calls s @ [NewPeer (peer pc)] \<and>
        pid (peer pc) = nextPid s \<and>
        nextPid (snd (createPeer (Participant.userId d) (Participant.username d) d st True s)) =
          Suc (nextPid s)"
  by (simp add: createPeer_def newPeer_def Let_def copiesParticipant_def)

lemma createPeer_isInitialized:
  "isInitialized (snd (createPeer u n d st i s)) = isInitialized s"
  by (simp add: createPeer_def newPeer_def Let_def)

lemma fold_createPeer_registry:
  "\<exists>new. peersRef (fold (\<lambda>participant s1.
                      if Participant.userId participant \<noteq> me
                      then snd (createPeer (Participant.userId participant)
                                  (Participant.username participant) participant st True s1)
                      else s1) ps s) = peersRef s @ new \<and>
         list_all2 (copiesParticipant st) new (filter (\<lambda>p. Participant.userId p \<noteq> me) ps) \<and>
         calls (fold (\<lambda>participant s1.
                      if Participant.userId participant \<noteq> me
                      then snd (createPeer (Participant.userId participant)
                                  (Participant.username participant) participant st True s1)
                      else s1) ps s) = calls s @ map (\<lambda>pc. NewPeer (peer pc)) new \<and>
         map (\<lambda>pc. pid (peer pc)) new = [nextPid s ..< nextPid s + length new] \<and>
         nextPid (fold (\<lambda>participant s1.
                      if Participant.userId participant \<noteq> me
                      then snd (createPeer (Participant.userId participant)
                                  (Participant.username participant) participant st True s1)
                      else s1) ps s) = nextPid s + length new"
proof (induction ps arbitrary: s)
  case Nil
  show ?case by simp
next
  case (Cons p ps)
  show ?case
  proof (cases "Participant.userId p \<noteq> me")
    case False
    then show ?thesis using Cons.IH [of s] by simp
  next
    case True
    let ?s1 = "snd (createPeer (Participant.userId p) (Participant.username p) p st True s)"
    obtain pc where pc: "peersRef ?s1 = peersRef s @ [pc]" "copiesParticipant st pc p"
      "calls ?s1 = calls s @ [NewPeer (peer pc)]" "pid (peer pc) = nextPid s"
      "nextPid ?s1 = Suc (nextPid s)"
      using createPeer_registry by blast
    obtain new where new: "peersRef (fold (\<lambda>participant s1.
                      if Participant.userId participant \<noteq> me
                      then snd (createPeer (Participant.userId participant)
                                  (Participant.username participant) participant st True s1)
                      else s1) ps ?s1) = peersRef ?s1 @ new"
       "list_all2 (copiesParticipant st) new (filter (\<lambda>p. Participant.userId p \<noteq> me) ps)"
       "calls (fold (\<lambda>participant s1.
                      if Participant.userId participant \<noteq> me
                      then snd (createPeer (Participant.userId participant)
                                  (Participant.username participant) participant st True s1)
                      else s1) ps ?s1) = calls ?s1 @ map (\<lambda>pc. NewPeer (peer pc)) new"
       "map (\<lambda>pc. pid (peer pc)) new = [nextPid ?s1 ..< nextPid ?s1 + length new]"
       "nextPid (fold (\<lambda>participant s1.
                      if Participant.userId participant \<noteq> me
                      then snd (createPeer (Participant.userId participant)
                                  (Participant.username participant) participant st True s1)
                      else s1) ps ?s1) = nextPid ?s1 + length new"
      using Cons.IH [of ?s1] by blast
    have A: "peersRef (fold (\<lambda>participant s1.
                      if Participant.userId participant \<noteq> me
                      then snd (createPeer (Participant.userId participant)
                                  (Participant.username participant) participant st True s1)
                      else s1) (p # ps) s) = peersRef s @ (pc # new)"
      using True pc(1) new(1) by simp
    have B: "list_all2 (copiesParticipant st) (pc # new)
        (filter (\<lambda>p. Participant.userId p \<noteq> me) (p # ps))"
      using True pc(2) new(2) by simp
    have C: "calls (fold (\<lambda>participant s1.
                      if Participant.userId participant \<noteq> me
                      then snd (createPeer (Participant.userId participant)
                                  (Participant.username participant) participant st True s1)
                      else s1) (p # ps) s) = calls s @ map (\<lambda>pc. NewPeer (peer pc)) (pc # new)"
      using True pc(3) new(3) by simp
    have n4: "map (\<lambda>pc. pid (peer pc)) new =
        [Suc (nextPid s) ..< Suc (nextPid s) + length new]"
      using new(4) unfolding pc(5) .
    have "map (\<lambda>pc. pid (peer pc)) (pc # new) =
        nextPid s # [Suc (nextPid s) ..< Suc (nextPid s) + length new]"
      by (simp only: list.map pc(4) n4)
    also have "\<dots> = [nextPid s ..< nextPid s + length (pc # new)]"
    proof -
      have lt: "nextPid s < nextPid s + length (pc # new)" by simp
      have eq: "Suc (nextPid s) + length new = nextPid s + length (pc # new)" by simp
      show ?thesis
        unfolding eq by (rule upt_conv_Cons [OF lt, symmetric])
    qed
    finally have D: "map (\<lambda>pc. pid (peer pc)) (pc # new) =
        [nextPid s ..< nextPid s + length (pc # new)]" .
    have E: "nextPid (fold (\<lambda>participant s1.
                      if Participant.userId participant \<noteq> me
                      then snd (createPeer (Participant.userId participant)
                                  (Participant.username participant) participant st True s1)
                      else s1) (p # ps) s) = nextPid s + length (pc # new)"
      using True pc(5) new(5) by simp
    show ?thesis using A B C D E by blast
  qed
qed

lemma fold_createPeer_isInitialized:
  "isInitialized (fold (\<lambda>participant s1.
                      if Participant.userId participant \<noteq> me
                      then snd (createPeer (Participant.userId participant)
                                  (Participant.username participant) participant st True s1)
                      else s1) ps s) = isInitialized s"
  by (induction ps arbitrary: s) (simp_all add: createPeer_isInitialized)

lemma initializeWebRTC_sets_flag:
  "isInitialized (initializeWebRTC me ps (Some st) s)"
  by (simp add: initializeWebRTC_def fold_createPeer_isInitialized)

lemma initializeWebRTC_again:
  "initializeWebRTC me' ps' st' (initializeWebRTC me ps (Some st) s) =
     initializeWebRTC me ps (Some st) s"
proof -
  have "isInitialized (initializeWebRTC me ps (Some st) s)"
    by (rule initializeWebRTC_sets_flag)
  then show ?thesis
    by (cases st') (simp_all add: initializeWebRTC_def [of me' ps'])
qed

lemma list_all2_map_eq:
  "list_all2 R xs ys \<Longrightarrow> (\<And>x y. R x y \<Longrightarrow> f x = g y) \<Longrightarrow> map f xs = map g ys"
  by (induction rule: list_all2_induct) auto

lemma initializeWebRTC_registry:
  assumes "\<not> isInitialized s"
  shows "\<exists>new. peersRef (initializeWebRTC me ps (Some st) s) = peersRef s @ new \<and>
               list_all2 (copiesParticipant st) new (filter (\<lambda>p. Participant.userId p \<noteq> me) ps) \<and>
               calls (initializeWebRTC me ps (Some st) s) =
                 calls s @ map (\<lambda>pc. NewPeer (peer pc)) new \<and>
               map (\<lambda>pc. pid (peer pc)) new = [nextPid s ..< nextPid s + length new]"
proof -
  obtain new where new:
    "peersRef (fold (\<lambda>participant s1.
                      if Participant.userId participant \<noteq> me
                      then snd (createPeer (Participant.userId participant)
                                  (Participant.username participant) participant st True s1)
                      else s1) ps (s\<lparr>isInitialized := True\<rparr>)) =
       peersRef (s\<lparr>isInitialized := True\<rparr>) @ new"
    "list_all2 (copiesParticipant st) new (filter (\<lambda>p. Participant.userId p \<noteq> me) ps)"
    "calls (fold (\<lambda>participant s1.
                      if Participant.userId participant \<noteq> me
                      then snd (createPeer (Participant.userId participant)
                                  (Participant.username participant) participant st True s1)
                      else s1) ps (s\<lparr>isInitialized := True\<rparr>)) =
       calls (s\<lparr>isInitialized := True\<rparr>) @ map (\<lambda>pc. NewPeer (peer pc)) new"
    "map (\<lambda>pc. pid (peer pc)) new =
       [nextPid (s\<lparr>isInitialized := True\<rparr>) ..<
        nextPid (s\<lparr>isInitialized := True\<rparr>) + length new]"
    using fold_createPeer_registry [of me st ps "s\<lparr>isInitialized := True\<rparr>"] by blast
  show ?thesis
    using assms new by (intro exI [of _ new]) (simp add: initializeWebRTC_def)
qed

text \<open>
  C5. Called on a hook that is not yet initialised, \<^verbatim>\<open>initializeWebRTC\<close> appends to the
  registry one session per entry of the participant list whose user id differs from the
  local one, in list order, and nothing else: the appended sessions carry exactly those
  user ids, each primitive is built as initiator with the given stream, and none is keyed
  by the local user id. The calls it makes are the constructions of these primitives, one
  per appended session, each a new object.
\<close>

theorem initializeWebRTC_creates_initiators:
  assumes "\<not> isInitialized s"
  shows "\<exists>new. peersRef (initializeWebRTC me ps (Some st) s) = peersRef s @ new \<and>
     map userId new = map Participant.userId (filter (\<lambda>p. Participant.userId p \<noteq> me) ps) \<and>
     (\<forall>pc \<in> set new. initiator (peer pc) \<and> localMedia (peer pc) = st \<and> userId pc \<noteq> me) \<and>
     calls (initializeWebRTC me ps (Some st) s) = calls s @ map (\<lambda>pc. NewPeer (peer pc)) new \<and>
     map (\<lambda>pc. pid (peer pc)) new = [nextPid s ..< nextPid s + length new]"
proof -
  obtain new where new: "peersRef (initializeWebRTC me ps (Some st) s) = peersRef s @ new"
    "list_all2 (copiesParticipant st) new (filter (\<lambda>p. Participant.userId p \<noteq> me) ps)"
    "calls (initializeWebRTC me ps (Some st) s) = calls s @ map (\<lambda>pc. NewPeer (peer pc)) new"
    "map (\<lambda>pc. pid (peer pc)) new = [nextPid s ..< nextPid s + length new]"
    using initializeWebRTC_registry [OF assms] by blast
  have ids: "map userId new = map Participant.userId (filter (\<lambda>p. Participant.userId p \<noteq> me) ps)"
    using new(2) by (rule list_all2_map_eq) (simp add: copiesParticipant_def)
  have "\<forall>pc \<in> set new. initiator (peer pc) \<and> localMedia (peer pc) = st"
    using new(2) by (auto simp: list_all2_conv_all_nth in_set_conv_nth copiesParticipant_def)
  moreover have "\<forall>pc \<in> set new. userId pc \<noteq> me"
  proof
    fix pc assume "pc \<in> set new"
    then have "userId pc \<in> set (map userId new)" by simp
    then show "userId pc \<noteq> me" unfolding ids by auto
  qed
  ultimately show ?thesis using new(1) new(3) new(4) ids by blast
qed

text \<open>
  Scenario A, with Bob himself in the list as well: one session, keyed Alice, initiator,
  and one primitive constructed.
\<close>

theorem initializeWebRTC_creates_initiators_witness:
  "\<not> isInitialized initialState \<and>
   map userId (peersRef (initializeWebRTC ''bob'' [alice, bob] (Some camera) initialState)) =
     [''alice''] \<and>
   map (\<lambda>pc. initiator (peer pc))
     (peersRef (initializeWebRTC ''bob'' [alice, bob] (Some camera) initialState)) = [True] \<and>
   length (filter isNewPeer
     (calls (initializeWebRTC ''bob'' [alice, bob] (Some camera) initialState))) = 1"
proof -
  have h: "\<not> isInitialized initialState" by (simp add: initialState_def)
  show ?thesis
    using h initializeWebRTC_creates_initiators [OF h, of "''bob''" "[alice, bob]" camera]
    by (auto simp: initialState_def alice_def bob_def)
qed

section \<open>Inbound offers\<close>

lemma handleOffer_no_stream: "handleOffer P None dat s = (Returned, s)"
  by (simp add: handleOffer_def)

lemma handleOffer_existing:
  "fromUserId dat \<in> userId ` set (peersRef s) \<Longrightarrow> handleOffer P ls dat s = (Returned, s)"
  using find_userId_Some [of "fromUserId dat" "peersRef s"]
  by (cases ls) (auto simp: handleOffer_def)

lemma handleOffer_accepts:
  assumes "fromUserId dat \<notin> userId ` set (peersRef s)"
    and "\<not> signalThrows P (nextPid s) (payload dat)"
  shows "\<exists>pc. answersOffer st dat pc \<and> pid (peer pc) = nextPid s \<and>
           fst (handleOffer P (Some st) dat s) = Returned \<and>
           peersRef (snd (handleOffer P (Some st) dat s)) = peersRef s @ [pc] \<and>
           peers (snd (handleOffer P (Some st) dat s)) =
             (if aliased s then peers s @ [pc, pc] else peers s @ [pc]) \<and>
           calls (snd (handleOffer P (Some st) dat s)) =
             calls s @ [NewPeer (peer pc), PeerSignal (pid (peer pc)) (payload dat)] \<and>
           connectionStates (snd (handleOffer P (Some st) dat s)) =
             (connectionStates s)(fromUserId dat \<mapsto> ''connecting'') \<and>
           isInitialized (snd (handleOffer P (Some st) dat s)) = isInitialized s"
  using assms
  by (simp add: handleOffer_def find_userId_None newPeer_def peerSignal_def andThen_def
      Let_def answersOffer_def)

lemma handleOffer_throws:
  assumes "fromUserId dat \<notin> userId ` set (peersRef s)"
    and "signalThrows P (nextPid s) (payload dat)"
  shows "fst (handleOffer P (Some st) dat s) = Threw \<and>
         peersRef (snd (handleOffer P (Some st) dat s)) = peersRef s \<and>
         peers (snd (handleOffer P (Some st) dat s)) = peers s \<and>
         connectionStates (snd (handleOffer P (Some st) dat s)) = connectionStates s \<and>
         isInitialized (snd (handleOffer P (Some st) dat s)) = isInitialized s \<and>
         filter isDestroy (calls (snd (handleOffer P (Some st) dat s))) = filter isDestroy (calls s)"
  using assms
  by (simp add: handleOffer_def find_userId_None newPeer_def peerSignal_def andThen_def Let_def)

lemma handleOffer_registry:
  "peersRef (snd (handleOffer P ls dat s)) = peersRef s \<or>
   (\<exists>st pc. ls = Some st \<and> answersOffer st dat pc \<and>
      peersRef (snd (handleOffer P ls dat s)) = peersRef s @ [pc])"
proof (cases ls)
  case None
  then show ?thesis by (simp add: handleOffer_no_stream)
next
  case (Some st)
  show ?thesis
  proof (cases "fromUserId dat \<in> userId ` set (peersRef s)")
    case True
    then show ?thesis by (simp add: handleOffer_existing)
  next
    case False
    show ?thesis
    proof (cases "signalThrows P (nextPid s) (payload dat)")
      case True
      with False Some show ?thesis using handleOffer_throws [of dat s P st] by simp
    next
      case nothrow: False
      with False Some show ?thesis using handleOffer_accepts [of dat s P st] by auto
    qed
  qed
qed

lemma handleOffer_no_destroy:
  "filter isDestroy (calls (snd (handleOffer P ls dat s))) = filter isDestroy (calls s)"
proof (cases ls)
  case None
  then show ?thesis by (simp add: handleOffer_no_stream)
next
  case (Some st)
  show ?thesis
  proof (cases "fromUserId dat \<in> userId ` set (peersRef s)")
    case True
    then show ?thesis by (simp add: handleOffer_existing)
  next
    case False
    show ?thesis
    proof (cases "signalThrows P (nextPid s) (payload dat)")
      case True
      with False Some show ?thesis using handleOffer_throws [of dat s P st] by simp
    next
      case nothrow: False
      with False Some show ?thesis using handleOffer_accepts [of dat s P st] by auto
    qed
  qed
qed

text \<open>
  C10. Whatever \<^verbatim>\<open>handleOffer\<close> appends to the registry carries the fallback display
  fields: first name equal to the offerer's user name, empty last name, role
  \<^verbatim>\<open>attendee\<close>; and it does append such a session when the offerer has none yet and the
  primitive takes the offer. The sessions \<^verbatim>\<open>initializeWebRTC\<close> appends carry the first
  name, last name and role of the participant they were built for.
\<close>

theorem offer_sessions_fallback_metadata:
  "(peersRef (snd (handleOffer P ls dat s)) = peersRef s \<or>
      (\<exists>pc. peersRef (snd (handleOffer P ls dat s)) = peersRef s @ [pc] \<and>
         userId pc = fromUserId dat \<and> firstName pc = Some (fromUsername dat) \<and>
         lastName pc = Some '''' \<and> role pc = Some ''attendee'')) \<and>
   (fromUserId dat \<notin> userId ` set (peersRef s) \<and>
    \<not> signalThrows P (nextPid s) (payload dat) \<longrightarrow>
      (\<exists>pc. peersRef (snd (handleOffer P (Some st) dat s)) = peersRef s @ [pc] \<and>
         userId pc = fromUserId dat \<and> firstName pc = Some (fromUsername dat) \<and>
         lastName pc = Some '''' \<and> role pc = Some ''attendee'')) \<and>
   (\<not> isInitialized s \<longrightarrow>
      (\<exists>new. peersRef (initializeWebRTC me ps (Some st) s) = peersRef s @ new \<and>
         map (\<lambda>pc. (userId pc, firstName pc, lastName pc, role pc)) new =
         map (\<lambda>p. (Participant.userId p, Some (Participant.firstName p),
                     Some (Participant.lastName p), Some (Participant.role p)))
           (filter (\<lambda>p. Participant.userId p \<noteq> me) ps)))"
proof (intro conjI impI)
  show "peersRef (snd (handleOffer P ls dat s)) = peersRef s \<or>
      (\<exists>pc. peersRef (snd (handleOffer P ls dat s)) = peersRef s @ [pc] \<and>
         userId pc = fromUserId dat \<and> firstName pc = Some (fromUsername dat) \<and>
         lastName pc = Some '''' \<and> role pc = Some ''attendee'')"
    using handleOffer_registry [of P ls dat s] by (auto simp: answersOffer_def)
next
  assume "fromUserId dat \<notin> userId ` set (peersRef s) \<and>
    \<not> signalThrows P (nextPid s) (payload dat)"
  then show "\<exists>pc. peersRef (snd (handleOffer P (Some st) dat s)) = peersRef s @ [pc] \<and>
         userId pc = fromUserId dat \<and> firstName pc = Some (fromUsername dat) \<and>
         lastName pc = Some '''' \<and> role pc = Some ''attendee''"
    using handleOffer_accepts [of dat s P st] by (auto simp: answersOffer_def)
next
  assume "\<not> isInitialized s"
  then obtain new where new: "peersRef (initializeWebRTC me ps (Some st) s) = peersRef s @ new"
    "list_all2 (copiesParticipant st) new (filter (\<lambda>p. Participant.userId p \<noteq> me) ps)"
    using initializeWebRTC_registry by blast
  have "map (\<lambda>pc. (userId pc, firstName pc, lastName pc, role pc)) new =
         map (\<lambda>p. (Participant.userId p, Some (Participant.firstName p),
                     Some (Participant.lastName p), Some (Participant.role p)))
           (filter (\<lambda>p. Participant.userId p \<noteq> me) ps)"
    using new(2) by (rule list_all2_map_eq) (simp add: copiesParticipant_def)
  with new(1) show "\<exists>new. peersRef (initializeWebRTC me ps (Some st) s) = peersRef s @ new \<and>
         map (\<lambda>pc. (userId pc, firstName pc, lastName pc, role pc)) new =
         map (\<lambda>p. (Participant.userId p, Some (Participant.firstName p),
                     Some (Participant.lastName p), Some (Participant.role p)))
           (filter (\<lambda>p. Participant.userId p \<noteq> me) ps)"
    by blast
qed

text \<open>
  Carol is a host called Carol Cole: the session built from her offer says
  \<^verbatim>\<open>carol03\<close>, no last name, attendee; the one built from the room snapshot says
  Carol Cole, host.
\<close>

theorem offer_sessions_fallback_metadata_witness:
  "''carol'' \<notin> userId ` set (peersRef initialState) \<and>
   \<not> signalThrows quiet (nextPid initialState) offerBlob \<and>
   \<not> isInitialized initialState \<and>
   map (\<lambda>pc. (userId pc, firstName pc, lastName pc, role pc))
     (peersRef (snd (handleOffer quiet (Some camera) carolOffer initialState))) =
     [(''carol'', Some ''carol03'', Some '''', Some ''attendee'')] \<and>
   map (\<lambda>pc. (userId pc, firstName pc, lastName pc, role pc))
     (peersRef (initializeWebRTC ''bob'' [carol] (Some camera) initialState)) =
     [(''carol'', Some ''Carol'', Some ''Cole'', Some ''host'')]"
proof -
  have h: "fromUserId carolOffer \<notin> userId ` set (peersRef initialState) \<and>
      \<not> signalThrows quiet (nextPid initialState) (payload carolOffer)"
    "\<not> isInitialized initialState"
    by (simp_all add: initialState_def quiet_def)
  show ?thesis
    using h offer_sessions_fallback_metadata
      [of quiet "Some camera" carolOffer initialState camera "''bob''" "[carol]"]
    by (auto simp: initialState_def carolOffer_def carol_def quiet_def)
qed

section \<open>Outbound signaling\<close>

lemma createPeer_listeners:
  "listeners (fst (createPeer u n d st i s)) = CreatePeerListeners u n"
  by (simp add: createPeer_def newPeer_def Let_def)

text \<open>
  The current hook. A session built by \<^verbatim>\<open>createPeer\<close>, as every session that
  \<^verbatim>\<open>initializeWebRTC\<close> registers is, sends a blob of type \<^verbatim>\<open>offer\<close> with \<^verbatim>\<open>sendOffer\<close>, one
  of type \<^verbatim>\<open>answer\<close> with \<^verbatim>\<open>sendAnswer\<close> and any other with \<^verbatim>\<open>sendIceCandidate\<close>, always
  to the session's user id: every blob leads to exactly one send.
\<close>

lemma current_createPeer_dispatch:
  "(\<not> isInitialized s \<longrightarrow>
      (\<exists>new. peersRef (initializeWebRTC me ps (Some st) s) = peersRef s @ new \<and>
         (\<forall>pc \<in> set new.
            calls (onSignal (peer pc) sg t) =
              calls t @
                (if sigType sg = Some ''offer'' then [SendOffer (userId pc) sg]
                 else if sigType sg = Some ''answer'' then [SendAnswer (userId pc) sg]
                 else [SendIceCandidate (userId pc) sg])))) \<and>
   calls (onSignal (fst (createPeer u n d st i s)) sg t) =
     calls t @
       (if sigType sg = Some ''offer'' then [SendOffer u sg]
        else if sigType sg = Some ''answer'' then [SendAnswer u sg]
        else [SendIceCandidate u sg])"
proof (intro conjI impI)
  assume "\<not> isInitialized s"
  then obtain new where new: "peersRef (initializeWebRTC me ps (Some st) s) = peersRef s @ new"
    "list_all2 (copiesParticipant st) new (filter (\<lambda>p. Participant.userId p \<noteq> me) ps)"
    using initializeWebRTC_registry by blast
  have "\<forall>pc \<in> set new. \<exists>n. listeners (peer pc) = CreatePeerListeners (userId pc) n"
    using new(2) by (auto simp: list_all2_conv_all_nth in_set_conv_nth copiesParticipant_def)
  then have "\<forall>pc \<in> set new.
            calls (onSignal (peer pc) sg t) =
              calls t @
                (if sigType sg = Some ''offer'' then [SendOffer (userId pc) sg]
                 else if sigType sg = Some ''answer'' then [SendAnswer (userId pc) sg]
                 else [SendIceCandidate (userId pc) sg])"
    by (auto simp: onSignal_def)
  with new(1) show "\<exists>new. peersRef (initializeWebRTC me ps (Some st) s) = peersRef s @ new \<and>
         (\<forall>pc \<in> set new.
            calls (onSignal (peer pc) sg t) =
              calls t @
                (if sigType sg = Some ''offer'' then [SendOffer (userId pc) sg]
                 else if sigType sg = Some ''answer'' then [SendAnswer (userId pc) sg]
                 else [SendIceCandidate (userId pc) sg]))"
    by blast
next
  show "calls (onSignal (fst (createPeer u n d st i s)) sg t) =
     calls t @
       (if sigType sg = Some ''offer'' then [SendOffer u sg]
        else if sigType sg = Some ''answer'' then [SendAnswer u sg]
        else [SendIceCandidate u sg])"
    by (simp add: onSignal_def createPeer_listeners)
qed

text \<open>
  The current hook, a session built from an inbound offer: its answer goes out with
  \<^verbatim>\<open>sendAnswer\<close>, and every blob leads to exactly one send to the session's user id.
\<close>

lemma current_handleOffer_dispatch:
  assumes "peersRef (snd (handleOffer P ls dat s)) = peersRef s @ [pc]"
  shows "length (signalListener (listeners (peer pc)) sg) = 1 \<and>
         (sigType sg = Some ''answer'' \<longrightarrow>
            calls (onSignal (peer pc) sg t) = calls t @ [SendAnswer (userId pc) sg])"
proof -
  from assms have "peersRef (snd (handleOffer P ls dat s)) \<noteq> peersRef s" by simp
  then obtain st' pc' where "answersOffer st' dat pc'"
    "peersRef (snd (handleOffer P ls dat s)) = peersRef s @ [pc']"
    using handleOffer_registry [of P ls dat s] by blast
  with assms have "answersOffer st' dat pc" by simp
  then show ?thesis by (simp add: answersOffer_def onSignal_def)
qed

text \<open>
  The legacy hook: the \<^verbatim>\<open>signal\<close> listener of its \<^verbatim>\<open>createPeer\<close> has no last branch, so a
  blob that is neither an offer nor an answer leads to no send at all.
\<close>

lemma legacy_signal_dropped:
  "sigType sg \<noteq> Some ''offer'' \<Longrightarrow> sigType sg \<noteq> Some ''answer'' \<Longrightarrow>
     calls (onSignal (fst (legacyCreatePeer b u n k st s)) sg t) = calls t"
  by (simp add: onSignal_def legacyCreatePeer_def newPeer_def Let_def)

text \<open>
  C9 on the legacy hook. The session that the legacy \<^verbatim>\<open>initializeWebRTC\<close> registers for
  Alice sends an offer blob with \<^verbatim>\<open>sendOffer\<close>, but for a candidate blob (a blob without
  \<^verbatim>\<open>type\<close>) it calls the relay client not at all: the blob is discarded. The session the
  current hook registers for Alice sends the same blob with \<^verbatim>\<open>sendIceCandidate\<close>.
\<close>

theorem legacy_createPeer_discards_other_blobs:
  "sigType candidateBlob \<noteq> Some ''offer'' \<and> sigType candidateBlob \<noteq> Some ''answer'' \<and>
   map (\<lambda>pc. (userId pc, calls (onSignal (peer pc) offerBlob legacyInitialState)))
     (peersRef (legacyInitializeWebRTC cmp ''bob'' [legacyAlice] camera legacyInitialState)) =
     [(''alice'', [SendOffer ''alice'' offerBlob])] \<and>
   map (\<lambda>pc. (userId pc, calls (onSignal (peer pc) candidateBlob legacyInitialState)))
     (peersRef (legacyInitializeWebRTC cmp ''bob'' [legacyAlice] camera legacyInitialState)) =
     [(''alice'', [])] \<and>
   map (\<lambda>pc. (userId pc, calls (onSignal (peer pc) candidateBlob initialState)))
     (peersRef (initializeWebRTC ''bob'' [alice] (Some camera) initialState)) =
     [(''alice'', [SendIceCandidate ''alice'' candidateBlob])]"
  by (simp add: legacyInitializeWebRTC_def legacyCreatePeer_def legacyInitialState_def
      legacyAlice_def sortBy_def initializeWebRTC_def createPeer_def initialState_def
      alice_def newPeer_def onSignal_def candidateBlob_def offerBlob_def Let_def)

section \<open>The contract of the inbound-offer handler\<close>

text \<open>
  The current hook: without local media, or with a session for the offerer already in
  the registry, \<^verbatim>\<open>handleOffer\<close> returns the state as it was. Otherwise, when the
  primitive takes the offer, it builds one responder primitive, passes it the offer,
  appends one session keyed by the offerer, and the answer that primitive later emits
  goes out with exactly one \<^verbatim>\<open>sendAnswer\<close> to the offerer.
\<close>

lemma handleOffer_contract:
  "handleOffer P None dat s = (Returned, s) \<and>
   (fromUserId dat \<in> userId ` set (peersRef s) \<longrightarrow> handleOffer P ls dat s = (Returned, s)) \<and>
   (fromUserId dat \<notin> userId ` set (peersRef s) \<and>
    \<not> signalThrows P (nextPid s) (payload dat) \<longrightarrow>
      (\<exists>pc. peersRef (snd (handleOffer P (Some st) dat s)) = peersRef s @ [pc] \<and>
         userId pc = fromUserId dat \<and> \<not> initiator (peer pc) \<and> localMedia (peer pc) = st \<and>
         calls (snd (handleOffer P (Some st) dat s)) =
           calls s @ [NewPeer (peer pc), PeerSignal (pid (peer pc)) (payload dat)] \<and>
         (sigType sg = Some ''answer'' \<longrightarrow>
            calls (onSignal (peer pc) sg t) = calls t @ [SendAnswer (fromUserId dat) sg])))"
proof (intro conjI impI)
  show "handleOffer P None dat s = (Returned, s)" by (rule handleOffer_no_stream)
next
  assume "fromUserId dat \<in> userId ` set (peersRef s)"
  then show "handleOffer P ls dat s = (Returned, s)" by (rule handleOffer_existing)
next
  assume "fromUserId dat \<notin> userId ` set (peersRef s) \<and>
    \<not> signalThrows P (nextPid s) (payload dat)"
  then obtain pc where pc: "answersOffer st dat pc"
    "peersRef (snd (handleOffer P (Some st) dat s)) = peersRef s @ [pc]"
    "calls (snd (handleOffer P (Some st) dat s)) =
       calls s @ [NewPeer (peer pc), PeerSignal (pid (peer pc)) (payload dat)]"
    using handleOffer_accepts [of dat s P st] by blast
  show "\<exists>pc. peersRef (snd (handleOffer P (Some st) dat s)) = peersRef s @ [pc] \<and>
         userId pc = fromUserId dat \<and> \<not> initiator (peer pc) \<and> localMedia (peer pc) = st \<and>
         calls (snd (handleOffer P (Some st) dat s)) =
           calls s @ [NewPeer (peer pc), PeerSignal (pid (peer pc)) (payload dat)] \<and>
         (sigType sg = Some ''answer'' \<longrightarrow>
            calls (onSignal (peer pc) sg t) = calls t @ [SendAnswer (fromUserId dat) sg])"
    using pc by (intro exI [of _ pc]) (simp add: answersOffer_def onSignal_def)
qed

text \<open>
  When the primitive throws on the offer, the throw leaves \<^verbatim>\<open>handleOffer\<close> (there is no
  \<^verbatim>\<open>try\<close> around this \<^verbatim>\<open>signal\<close>) and no session is registered for the primitive built.
\<close>

lemma handleOffer_uncaught:
  "fromUserId dat \<notin> userId ` set (peersRef s) \<Longrightarrow>
   signalThrows P (nextPid s) (payload dat) \<Longrightarrow>
     fst (handleOffer P (Some st) dat s) = Threw \<and>
     peersRef (snd (handleOffer P (Some st) dat s)) = peersRef s"
  using handleOffer_throws [of dat s P st] by simp

text \<open>
  C4 on the legacy hook. Its \<^verbatim>\<open>handleOffer\<close> does not look the offerer up: a second
  offer from Carol, who has a session, appends a second session keyed Carol and builds a
  second primitive.
\<close>

theorem legacy_offer_for_existing_session_duplicates:
  "map userId (peersRef (snd (legacyHandleOffer quiet (Some camera) carolOffer
      legacyInitialState))) = [''carol''] \<and>
   map userId (peersRef (snd (legacyHandleOffer quiet (Some camera) carolOffer
      (snd (legacyHandleOffer quiet (Some camera) carolOffer legacyInitialState))))) =
     [''carol'', ''carol''] \<and>
   length (filter isNewPeer (calls (snd (legacyHandleOffer quiet (Some camera) carolOffer
      (snd (legacyHandleOffer quiet (Some camera) carolOffer legacyInitialState)))))) = 2"
  by (simp add: legacyHandleOffer_def legacyInitialState_def carolOffer_def quiet_def
      newPeer_def peerSignal_def andThen_def Let_def)

section \<open>Calling initialize again\<close>

text \<open>
  The current hook: a second \<^verbatim>\<open>initializeWebRTC\<close>, with any list and stream, after a call
  that had a stream, returns the state of the first call: same sessions, same roles, same
  connection-state map, no further call on any collaborator.
\<close>

lemma initializeWebRTC_idempotent:
  "initializeWebRTC me' ps' st' (initializeWebRTC me ps (Some st) s) =
     initializeWebRTC me ps (Some st) s \<and>
   peersRef (initializeWebRTC me' ps' st' (initializeWebRTC me ps (Some st) s)) =
     peersRef (initializeWebRTC me ps (Some st) s) \<and>
   connectionStates (initializeWebRTC me' ps' st' (initializeWebRTC me ps (Some st) s)) =
     connectionStates (initializeWebRTC me ps (Some st) s)"
  by (simp add: initializeWebRTC_again)

text \<open>
  C3 on the legacy hook. Its \<^verbatim>\<open>initializeWebRTC\<close> has no guard: called twice with the
  room snapshot [Alice], whatever the comparator, it leaves two sessions keyed Alice and
  has built two primitives.
\<close>

theorem legacy_initialize_twice_duplicates:
  "map userId (peersRef (legacyInitializeWebRTC cmp ''bob'' [legacyAlice] camera
      legacyInitialState)) = [''alice''] \<and>
   map userId (peersRef (legacyInitializeWebRTC cmp ''bob'' [legacyAlice] camera
      (legacyInitializeWebRTC cmp ''bob'' [legacyAlice] camera legacyInitialState))) =
     [''alice'', ''alice''] \<and>
   length (filter isNewPeer (calls (legacyInitializeWebRTC cmp ''bob'' [legacyAlice] camera
      (legacyInitializeWebRTC cmp ''bob'' [legacyAlice] camera legacyInitialState)))) = 2"
  by (simp add: legacyInitializeWebRTC_def legacyCreatePeer_def legacyInitialState_def
      legacyAlice_def sortBy_def newPeer_def Let_def)

section \<open>Uniqueness of the user id in the registry\<close>

lemma handleOffer_keeps_distinct:
  assumes "distinct (map userId (peersRef s))"
  shows "distinct (map userId (peersRef (snd (handleOffer P ls dat s))))"
proof (cases ls)
  case None
  with assms show ?thesis by (simp add: handleOffer_no_stream)
next
  case (Some st)
  show ?thesis
  proof (cases "fromUserId dat \<in> userId ` set (peersRef s)")
    case True
    with assms show ?thesis by (simp add: handleOffer_existing)
  next
    case False
    show ?thesis
    proof (cases "signalThrows P (nextPid s) (payload dat)")
      case True
      with False Some assms show ?thesis using handleOffer_throws [of dat s P st] by simp
    next
      case nothrow: False
      with False Some assms show ?thesis
        using handleOffer_accepts [of dat s P st] by (auto simp: answersOffer_def)
    qed
  qed
qed

lemma removePeer_registry:
  "peersRef (snd (removePeer P uid s)) = filter (\<lambda>p. userId p \<noteq> uid) (peersRef s)"
proof (cases "find (\<lambda>p. userId p = uid) (peersRef s)")
  case None
  then have "\<forall>p \<in> set (peersRef s). userId p \<noteq> uid" by (simp add: find_None_iff)
  then have "filter (\<lambda>p. userId p \<noteq> uid) (peersRef s) = peersRef s" by (simp add: filter_id_conv)
  with None show ?thesis by (simp add: removePeer_def)
next
  case (Some pc)
  then show ?thesis by (simp add: removePeer_present)
qed

lemma cleanup_fold:
  "fold (\<lambda>peerConnection s'. snd (catch (peerDestroy P (peer peerConnection) s'))) xs s =
     s\<lparr>calls := calls s @ map (\<lambda>pc. PeerDestroy (pid (peer pc))) xs\<rparr>"
  by (induction xs arbitrary: s) (simp_all add: catch_def peerDestroy_def)

lemma cleanup_result:
  "cleanup P s =
     (Returned,
      s\<lparr>calls := calls s @ map (\<lambda>pc. PeerDestroy (pid (peer pc))) (peersRef s),
         peers := [], peersRef := [], connectionStates := Map.empty, isInitialized := False,
         aliased := False\<rparr>)"
  by (simp add: cleanup_def cleanup_fold Let_def)

lemma fold_handleOffer_keeps_distinct:
  "distinct (map userId (peersRef s)) \<Longrightarrow>
     distinct (map userId (peersRef
       (fold (\<lambda>localStream s1. snd (handleOffer P localStream dat s1)) cs s)))"
  by (induction cs arbitrary: s) (simp_all add: handleOffer_keeps_distinct)

lemma fold_handleAnswer_registry:
  "peersRef (fold (\<lambda>localStream s1. snd (handleAnswer P dat s1)) cs s) = peersRef s"
  by (induction cs arbitrary: s) (simp_all add: handleAnswer_cases split: option.splits)

lemma fold_handleIceCandidate_registry:
  "peersRef (fold (\<lambda>localStream s1. snd (handleIceCandidate P dat s1)) cs s) = peersRef s"
  by (induction cs arbitrary: s) (simp_all add: handleIceCandidate_cases split: option.splits)

text \<open>
  Every event but \<^verbatim>\<open>initializeWebRTC\<close> keeps the user ids of the registry distinct,
  however many handler sets are registered; an offer from a user who has a session
  changes nothing at all.
\<close>

lemma step_keeps_distinct:
  assumes "distinct (map userId (peersRef s))" and "\<not> isInitialize ev"
  shows "distinct (map userId (peersRef (step P me cs ev s)))"
proof (cases ev)
  case (Initialize ps st)
  with assms(2) show ?thesis by simp
next
  case (InboundOffer dat)
  with assms(1) show ?thesis by (simp add: fold_handleOffer_keeps_distinct)
next
  case (InboundAnswer dat)
  with assms(1) show ?thesis by (simp add: fold_handleAnswer_registry)
next
  case (InboundCandidate dat)
  with assms(1) show ?thesis by (simp add: fold_handleIceCandidate_registry)
next
  case (ParticipantLeft uid)
  with assms(1) show ?thesis
    by (simp add: handleParticipantLeft_def removePeer_registry distinct_map_filter)
next
  case Cleanup
  then show ?thesis by (simp add: cleanup_result)
qed

lemma run_keeps_distinct:
  "distinct (map userId (peersRef s)) \<Longrightarrow> list_all (\<lambda>ev. \<not> isInitialize ev) es \<Longrightarrow>
     distinct (map userId (peersRef (run P me cs es s)))"
  unfolding run_def
  by (induction es arbitrary: s) (simp_all add: step_keeps_distinct)

text \<open>
  \<^verbatim>\<open>initializeWebRTC\<close> does not look the registry up. On a hook not yet initialised it
  keeps the user ids distinct exactly when the remote user ids of the list are distinct
  and none of them has a session.
\<close>

lemma initializeWebRTC_distinct_iff:
  assumes "\<not> isInitialized s"
  shows "distinct (map userId (peersRef (initializeWebRTC me ps (Some st) s))) \<longleftrightarrow>
           distinct (map userId (peersRef s)) \<and>
           distinct (map Participant.userId (filter (\<lambda>p. Participant.userId p \<noteq> me) ps)) \<and>
           userId ` set (peersRef s) \<inter>
             Participant.userId ` set (filter (\<lambda>p. Participant.userId p \<noteq> me) ps) = {}"
proof -
  obtain new where new: "peersRef (initializeWebRTC me ps (Some st) s) = peersRef s @ new"
    "list_all2 (copiesParticipant st) new (filter (\<lambda>p. Participant.userId p \<noteq> me) ps)"
    using initializeWebRTC_registry [OF assms] by blast
  have ids: "map userId new =
      map Participant.userId (filter (\<lambda>p. Participant.userId p \<noteq> me) ps)"
    using new(2) by (rule list_all2_map_eq) (simp add: copiesParticipant_def)
  have "set (map userId new) = userId ` set new" by simp
  then have img: "userId ` set new =
      Participant.userId ` set (filter (\<lambda>p. Participant.userId p \<noteq> me) ps)"
    unfolding ids by simp
  show ?thesis
    unfolding new(1) by (simp add: ids img del: set_filter)
qed

text \<open>
  C1 at a failing input. Bob's hook was mounted without media and then got the camera
  stream. Carol's offer is accepted, then the room snapshot [Carol] is initialised: the
  registry holds two sessions keyed Carol. The same happens when the snapshot lists Alice
  twice.
\<close>

theorem initialize_breaks_uniqueness:
  "distinct (map userId (peersRef initialState)) \<and>
   map userId (peersRef (run quiet ''bob'' [None, Some camera]
       [InboundOffer carolOffer, Initialize [carol] (Some camera)] initialState)) =
     [''carol'', ''carol''] \<and>
   map (\<lambda>pc. initiator (peer pc)) (peersRef (run quiet ''bob'' [None, Some camera]
       [InboundOffer carolOffer, Initialize [carol] (Some camera)] initialState)) =
     [False, True] \<and>
   map userId (peersRef (run quiet ''bob'' [None, Some camera]
       [Initialize [alice, alice] (Some camera)] initialState)) = [''alice'', ''alice'']"
  by (simp add: run_def initialState_def handleOffer_def initializeWebRTC_def createPeer_def
      carolOffer_def carol_def alice_def quiet_def newPeer_def peerSignal_def andThen_def
      Let_def)

text \<open>
  A second route to a repeated entry, in the exposed peer list: once a \<^verbatim>\<open>stream\<close> event
  has made the registry and the peer list one array, a session that \<^verbatim>\<open>createPeer\<close> or
  \<^verbatim>\<open>handleOffer\<close> adds appears twice in \<^verbatim>\<open>peers\<close>.
\<close>

lemma createPeer_aliased_peers:
  "aliased s \<Longrightarrow>
     \<exists>pc. userId pc = u \<and>
       peersRef (snd (createPeer u n d st i s)) = peersRef s @ [pc] \<and>
       peers (snd (createPeer u n d st i s)) = peers s @ [pc, pc]"
  by (simp add: createPeer_def newPeer_def Let_def)

lemma onStream_aliases:
  "aliased (onStream uid remoteStream s) \<and>
   peersRef (onStream uid remoteStream s) = peers (onStream uid remoteStream s) \<and>
   map userId (peersRef (onStream uid remoteStream s)) = map userId (peers s)"
  by (simp add: onStream_def Let_def)

text \<open>
  The next \<^verbatim>\<open>stream\<close> event copies the peer list into the registry: Carol's stream
  arrives, Alice's offer is accepted, Alice's stream arrives, and the registry holds two
  sessions keyed Alice.
\<close>

lemma stream_offer_stream_duplicates:
  "map userId (peers (snd (handleOffer quiet (Some camera) aliceOffer
      (onStream ''carol'' camera carolJoined)))) = [''carol'', ''alice'', ''alice''] \<and>
   map userId (peersRef (onStream ''alice'' camera
      (snd (handleOffer quiet (Some camera) aliceOffer
        (onStream ''carol'' camera carolJoined))))) = [''carol'', ''alice'', ''alice'']"
  by (simp add: onStream_def carolJoined_def handleOffer_def initialState_def carolOffer_def
      aliceOffer_def quiet_def newPeer_def peerSignal_def andThen_def Let_def)

section \<open>After cleanup\<close>

lemma fold_handleAnswer_empty:
  "peersRef s = [] \<Longrightarrow> fold (\<lambda>localStream s1. snd (handleAnswer P dat s1)) cs s = s"
  by (induction cs) (simp_all add: handleAnswer_def)

lemma fold_handleIceCandidate_empty:
  "peersRef s = [] \<Longrightarrow> fold (\<lambda>localStream s1. snd (handleIceCandidate P dat s1)) cs s = s"
  by (induction cs) (simp_all add: handleIceCandidate_def)

lemma fold_handleOffer_no_media:
  "list_all (\<lambda>c. c = None) cs \<Longrightarrow>
     fold (\<lambda>localStream s1. snd (handleOffer P localStream dat s1)) cs s = s"
  by (induction cs) (simp_all add: handleOffer_no_stream)

lemma step_answer_candidate_empty:
  "peersRef s = [] \<Longrightarrow> isAnswerOrCandidate ev \<Longrightarrow> step P me cs ev s = s"
  by (cases ev) (simp_all add: fold_handleAnswer_empty fold_handleIceCandidate_empty)

lemma run_answer_candidate_empty:
  "peersRef s = [] \<Longrightarrow> list_all isAnswerOrCandidate es \<Longrightarrow> run P me cs es s = s"
  unfolding run_def
  by (induction es) (simp_all add: step_answer_candidate_empty)

lemma step_signaling_no_media_empty:
  "peersRef s = [] \<Longrightarrow> isSignaling ev \<Longrightarrow> list_all (\<lambda>c. c = None) cs \<Longrightarrow>
     step P me cs ev s = s"
  by (cases ev)
     (simp_all add: fold_handleAnswer_empty fold_handleIceCandidate_empty
        fold_handleOffer_no_media)

lemma run_signaling_no_media_empty:
  "peersRef s = [] \<Longrightarrow> list_all isSignaling es \<Longrightarrow> list_all (\<lambda>c. c = None) cs \<Longrightarrow>
     run P me cs es s = s"
  unfolding run_def
  by (induction es) (simp_all add: step_signaling_no_media_empty)

lemma fold_handleOffer_no_destroy:
  "filter isDestroy (calls (fold (\<lambda>localStream s1. snd (handleOffer P localStream dat s1)) cs s)) =
     filter isDestroy (calls s)"
  by (induction cs arbitrary: s) (simp_all add: handleOffer_no_destroy)

lemma fold_handleAnswer_no_destroy:
  "filter isDestroy (calls (fold (\<lambda>localStream s1. snd (handleAnswer P dat s1)) cs s)) =
     filter isDestroy (calls s)"
  by (induction cs arbitrary: s) (simp_all add: handleAnswer_cases split: option.splits)

lemma fold_handleIceCandidate_no_destroy:
  "filter isDestroy
     (calls (fold (\<lambda>localStream s1. snd (handleIceCandidate P dat s1)) cs s)) =
     filter isDestroy (calls s)"
  by (induction cs arbitrary: s) (simp_all add: handleIceCandidate_cases split: option.splits)

lemma step_signaling_no_destroy:
  "isSignaling ev \<Longrightarrow>
     filter isDestroy (calls (step P me cs ev s)) = filter isDestroy (calls s)"
  by (cases ev)
     (simp_all add: fold_handleOffer_no_destroy fold_handleAnswer_no_destroy
        fold_handleIceCandidate_no_destroy)

lemma run_signaling_no_destroy:
  "list_all isSignaling es \<Longrightarrow>
     filter isDestroy (calls (run P me cs es s)) = filter isDestroy (calls s)"
  unfolding run_def
  by (induction es arbitrary: s) (simp_all add: step_signaling_no_destroy)

text \<open>
  C2, as the code has it. \<^verbatim>\<open>cleanup\<close> destroys the primitive of every registered session
  once and empties the registry. After it, whatever handler sets are registered with the
  relay client, no sequence of inbound offers, answers and candidates leads to a further
  \<^verbatim>\<open>destroy\<close>; a sequence of answers and candidates leaves the whole state as \<^verbatim>\<open>cleanup\<close>
  left it, and so does any sequence of signaling events when no registered handler has
  captured local media. An offer that arrives while local media is present is handled as
  on a fresh hook, there being no torn-down flag: when the primitive takes it, the
  registry holds one session, keyed by the offerer.
\<close>

theorem after_cleanup_signaling:
  "calls (snd (cleanup P s)) = calls s @ map (\<lambda>pc. PeerDestroy (pid (peer pc))) (peersRef s) \<and>
   peersRef (snd (cleanup P s)) = [] \<and>
   (list_all isSignaling es \<longrightarrow>
      filter isDestroy (calls (run P me cs es (snd (cleanup P s)))) =
        filter isDestroy (calls (snd (cleanup P s)))) \<and>
   (list_all isAnswerOrCandidate es \<longrightarrow>
      run P me cs es (snd (cleanup P s)) = snd (cleanup P s)) \<and>
   (list_all isSignaling es \<and> list_all (\<lambda>c. c = None) cs \<longrightarrow>
      run P me cs es (snd (cleanup P s)) = snd (cleanup P s)) \<and>
   (\<not> signalThrows P (nextPid (snd (cleanup P s))) (payload dat) \<longrightarrow>
      fst (handleOffer P (Some st) dat (snd (cleanup P s))) = Returned \<and>
      map userId (peersRef (snd (handleOffer P (Some st) dat (snd (cleanup P s))))) =
        [fromUserId dat])"
proof -
  have e: "peersRef (snd (cleanup P s)) = []" by (simp add: cleanup_result)
  have o: "fst (handleOffer P (Some st) dat (snd (cleanup P s))) = Returned \<and>
      map userId (peersRef (snd (handleOffer P (Some st) dat (snd (cleanup P s))))) =
        [fromUserId dat]"
    if "\<not> signalThrows P (nextPid (snd (cleanup P s))) (payload dat)"
  proof -
    have "fromUserId dat \<notin> userId ` set (peersRef (snd (cleanup P s)))"
      using e by simp
    then show ?thesis
      using that e handleOffer_accepts [of dat "snd (cleanup P s)" P st]
      by (auto simp: answersOffer_def)
  qed
  have r: "calls (snd (cleanup P s)) =
      calls s @ map (\<lambda>pc. PeerDestroy (pid (peer pc))) (peersRef s)"
    by (simp add: cleanup_result)
  show ?thesis
    using e o r
    by (simp add: run_signaling_no_destroy run_answer_candidate_empty
        run_signaling_no_media_empty)
qed

text \<open>
  After Bob's cleanup, with a primitive that throws on every call and two registered
  handler sets: Carol's late answer and candidate change nothing; her late offer, answer
  and candidate lead to no \<^verbatim>\<open>destroy\<close> beyond the one of the cleanup; with handler sets
  that captured no media, her late offer changes nothing either. With a primitive that
  takes the offer and the camera stream present, her late offer puts a session keyed
  Carol into the registry.
\<close>

theorem after_cleanup_signaling_witness:
  "list_all isAnswerOrCandidate [InboundAnswer carolAnswer, InboundCandidate carolCandidate] \<and>
   list_all isSignaling
     [InboundOffer carolOffer, InboundAnswer carolAnswer, InboundCandidate carolCandidate] \<and>
   list_all (\<lambda>c. c = None) [None, None :: MediaStream option] \<and>
   run faulty ''bob'' [None, Some camera]
     [InboundAnswer carolAnswer, InboundCandidate carolCandidate]
     (snd (cleanup faulty carolJoined)) = snd (cleanup faulty carolJoined) \<and>
   filter isDestroy (calls (run faulty ''bob'' [None, Some camera]
     [InboundOffer carolOffer, InboundAnswer carolAnswer, InboundCandidate carolCandidate]
     (snd (cleanup faulty carolJoined)))) = [PeerDestroy 0] \<and>
   run faulty ''bob'' [None, None]
     [InboundOffer carolOffer, InboundAnswer carolAnswer, InboundCandidate carolCandidate]
     (snd (cleanup faulty carolJoined)) = snd (cleanup faulty carolJoined) \<and>
   \<not> signalThrows quiet (nextPid (snd (cleanup quiet carolJoined))) (payload carolOffer) \<and>
   map userId (peersRef (snd (handleOffer quiet (Some camera) carolOffer
     (snd (cleanup quiet carolJoined))))) = [fromUserId carolOffer]"
proof -
  have h: "list_all isAnswerOrCandidate [InboundAnswer carolAnswer, InboundCandidate carolCandidate]"
    "list_all isSignaling
       [InboundOffer carolOffer, InboundAnswer carolAnswer, InboundCandidate carolCandidate]"
    "list_all (\<lambda>c. c = None) [None, None :: MediaStream option]"
    by simp_all
  have c: "filter isDestroy (calls carolJoined) = []"
    by (simp add: carolJoined_def handleOffer_def initialState_def carolOffer_def quiet_def
        newPeer_def peerSignal_def andThen_def Let_def)
  have q: "\<not> signalThrows quiet (nextPid (snd (cleanup quiet carolJoined))) (payload carolOffer)"
    by (simp add: quiet_def)
  have 1: "run faulty ''bob'' [None, Some camera]
     [InboundAnswer carolAnswer, InboundCandidate carolCandidate]
     (snd (cleanup faulty carolJoined)) = snd (cleanup faulty carolJoined)"
    using h after_cleanup_signaling [of faulty carolJoined
        "[InboundAnswer carolAnswer, InboundCandidate carolCandidate]" "''bob''"
        "[None, Some camera]" carolOffer camera]
    by simp
  have 2: "filter isDestroy (calls (run faulty ''bob'' [None, Some camera]
     [InboundOffer carolOffer, InboundAnswer carolAnswer, InboundCandidate carolCandidate]
     (snd (cleanup faulty carolJoined)))) = [PeerDestroy 0]"
    using h c after_cleanup_signaling [of faulty carolJoined
        "[InboundOffer carolOffer, InboundAnswer carolAnswer, InboundCandidate carolCandidate]"
        "''bob''" "[None, Some camera]" carolOffer camera]
    by (simp add: carolJoined_peersRef)
  have 3: "run faulty ''bob'' [None, None]
     [InboundOffer carolOffer, InboundAnswer carolAnswer, InboundCandidate carolCandidate]
     (snd (cleanup faulty carolJoined)) = snd (cleanup faulty carolJoined)"
    using h after_cleanup_signaling [of faulty carolJoined
        "[InboundOffer carolOffer, InboundAnswer carolAnswer, InboundCandidate carolCandidate]"
        "''bob''" "[None, None]" carolOffer camera]
    by simp
  have 4: "map userId (peersRef (snd (handleOffer quiet (Some camera) carolOffer
     (snd (cleanup quiet carolJoined))))) = [fromUserId carolOffer]"
    using q after_cleanup_signaling [of quiet carolJoined "[]" "''bob''" "[]" carolOffer camera]
    by simp
  show ?thesis using h q 1 2 3 4 by simp
qed

text \<open>
  The claim as stated fails: after the cleanup the registry is empty, and Carol's offer,
  arriving while Bob's camera stream is still there, puts a session into it and builds a
  primitive.
\<close>

theorem offer_after_cleanup_creates_session:
  "peersRef (snd (cleanup quiet carolJoined)) = [] \<and>
   map userId (peersRef (snd (handleOffer quiet (Some camera) carolOffer
      (snd (cleanup quiet carolJoined))))) = [''carol''] \<and>
   peersRef (snd (handleOffer quiet (Some camera) carolOffer (snd (cleanup quiet carolJoined))))
     \<noteq> peersRef (snd (cleanup quiet carolJoined))"
  by (simp add: cleanup_result handleOffer_def carolOffer_def quiet_def newPeer_def
      peerSignal_def andThen_def Let_def)

section \<open>Replacing the local stream\<close>

lemma replaceKind_count:
  "length (filter (isReplaceOf k') (replaceKind i senders k newTrack)) =
     (if k' = k \<and> newTrack \<noteq> None \<and>
         find (\<lambda>sd. map_option kind (track sd) = Some k) senders \<noteq> None
      then 1 else 0)"
proof (cases newTrack)
  case None
  then show ?thesis by (simp add: replaceKind_def)
next
  case (Some t)
  show ?thesis
  proof (cases "find (\<lambda>sd. map_option kind (track sd) = Some k) senders")
    case None
    with Some show ?thesis by (simp add: replaceKind_def)
  next
    case found: (Some sd)
    then have "map_option kind (track sd) = Some k" by (auto simp: find_Some_iff)
    with Some found show ?thesis by (auto simp: replaceKind_def)
  qed
qed

lemma replaceKind_only_replaces:
  "c \<in> set (replaceKind i senders k newTrack) \<Longrightarrow> \<exists>sd t. c = ReplaceTrack i sd t"
  by (auto simp: replaceKind_def split: option.splits)

lemma first_None_iff: "first xs = None \<longleftrightarrow> xs = []"
  by (cases xs) simp_all

lemma updatePeerTracks_count:
  "length (filter (isReplaceOf ''video'') (updatePeerTracks P newStream pc)) =
     (if getVideoTracks newStream \<noteq> [] \<and> hasSender P pc ''video'' then 1 else 0) \<and>
   length (filter (isReplaceOf ''audio'') (updatePeerTracks P newStream pc)) =
     (if getAudioTracks newStream \<noteq> [] \<and> hasSender P pc ''audio'' then 1 else 0)"
  by (cases "pcSenders P (pid (peer pc))")
     (simp_all add: updatePeerTracks_def hasSender_def replaceKind_count first_None_iff Let_def)

lemma updatePeerTracks_only_replaces:
  "c \<in> set (updatePeerTracks P newStream pc) \<Longrightarrow> \<exists>sd t. c = ReplaceTrack (pid (peer pc)) sd t"
  by (cases "pcSenders P (pid (peer pc))")
     (auto simp: updatePeerTracks_def Let_def dest: replaceKind_only_replaces)

lemma no_destroy_in_replaces:
  "\<forall>c \<in> set cs. \<exists>i sd t. c = ReplaceTrack i sd t \<Longrightarrow>
     filter isDestroy cs = [] \<and> filter isNewPeer cs = []"
  by (auto simp: filter_empty_conv)

text \<open>
  C8, as the code has it. \<^verbatim>\<open>updateLocalStream\<close> leaves the registry, the peer list and
  the connection-state map as they are and calls nothing but \<^verbatim>\<open>replaceTrack\<close>: no
  primitive is destroyed or built. For each registered session, in registry order, it
  makes one \<^verbatim>\<open>replaceTrack\<close> call on the video sender when the new stream has a video
  track and the session's connection has a sender whose current track is video, and none
  otherwise; likewise for audio.
\<close>

theorem updateLocalStream_replaces_per_sender:
  "peersRef (updateLocalStream P newStream s) = peersRef s \<and>
   peers (updateLocalStream P newStream s) = peers s \<and>
   connectionStates (updateLocalStream P newStream s) = connectionStates s \<and>
   isInitialized (updateLocalStream P newStream s) = isInitialized s \<and>
   filter isDestroy (calls (updateLocalStream P newStream s)) = filter isDestroy (calls s) \<and>
   filter isNewPeer (calls (updateLocalStream P newStream s)) = filter isNewPeer (calls s) \<and>
   calls (updateLocalStream P newStream s) =
     calls s @ concat (map (updatePeerTracks P newStream) (peersRef s)) \<and>
   (\<forall>pc.
      (\<forall>c \<in> set (updatePeerTracks P newStream pc). \<exists>sd t. c = ReplaceTrack (pid (peer pc)) sd t) \<and>
      length (filter (isReplaceOf ''video'') (updatePeerTracks P newStream pc)) =
        (if getVideoTracks newStream \<noteq> [] \<and> hasSender P pc ''video'' then 1 else 0) \<and>
      length (filter (isReplaceOf ''audio'') (updatePeerTracks P newStream pc)) =
        (if getAudioTracks newStream \<noteq> [] \<and> hasSender P pc ''audio'' then 1 else 0))"
proof -
  have r: "\<forall>c \<in> set (concat (map (updatePeerTracks P newStream) (peersRef s))).
      \<exists>i sd t. c = ReplaceTrack i sd t"
    by (auto dest: updatePeerTracks_only_replaces)
  have d: "filter isDestroy (concat (map (updatePeerTracks P newStream) (peersRef s))) = []"
    "filter isNewPeer (concat (map (updatePeerTracks P newStream) (peersRef s))) = []"
    using no_destroy_in_replaces [OF r] by simp_all
  have f: "filter isDestroy (calls (updateLocalStream P newStream s)) = filter isDestroy (calls s)"
    "filter isNewPeer (calls (updateLocalStream P newStream s)) = filter isNewPeer (calls s)"
    using d by (simp_all add: updateLocalStream_def)
  have p: "\<forall>pc.
      (\<forall>c \<in> set (updatePeerTracks P newStream pc). \<exists>sd t. c = ReplaceTrack (pid (peer pc)) sd t) \<and>
      length (filter (isReplaceOf ''video'') (updatePeerTracks P newStream pc)) =
        (if getVideoTracks newStream \<noteq> [] \<and> hasSender P pc ''video'' then 1 else 0) \<and>
      length (filter (isReplaceOf ''audio'') (updatePeerTracks P newStream pc)) =
        (if getAudioTracks newStream \<noteq> [] \<and> hasSender P pc ''audio'' then 1 else 0)"
    using updatePeerTracks_count updatePeerTracks_only_replaces by blast
  show ?thesis
    using f p by (simp add: updateLocalStream_def)
qed

text \<open>
  Scenario D, two sessions whose connections carry a microphone and a camera sender,
  switching to the screen-share stream: per session one video and one audio replacement,
  the registry as before.
\<close>

theorem updateLocalStream_replaces_per_sender_witness:
  "map userId (peersRef (updateLocalStream audioVideo screenShare aliceAndCarol)) =
     [''alice'', ''carol''] \<and>
   peersRef (updateLocalStream audioVideo screenShare aliceAndCarol) = peersRef aliceAndCarol \<and>
   list_all (\<lambda>pc.
       length (filter (isReplaceOf ''video'') (updatePeerTracks audioVideo screenShare pc)) = 1 \<and>
       length (filter (isReplaceOf ''audio'') (updatePeerTracks audioVideo screenShare pc)) = 1)
     (peersRef aliceAndCarol) \<and>
   filter isDestroy (calls (updateLocalStream audioVideo screenShare aliceAndCarol)) = []"
proof -
  have h: "getVideoTracks screenShare \<noteq> []" "getAudioTracks screenShare \<noteq> []"
    "\<And>pc. hasSender audioVideo pc ''video''" "\<And>pc. hasSender audioVideo pc ''audio''"
    by (simp_all add: getVideoTracks_def getAudioTracks_def screenShare_def micTrack_def
        screenTrack_def camTrack_def hasSender_def audioVideo_def)
  have ids: "map userId (peersRef aliceAndCarol) = [''alice'', ''carol'']"
    "filter isDestroy (calls aliceAndCarol) = []"
    by (simp_all add: aliceAndCarol_def handleOffer_def initializeWebRTC_def createPeer_def
        initialState_def carolOffer_def alice_def quiet_def newPeer_def peerSignal_def
        andThen_def Let_def)
  note t = updateLocalStream_replaces_per_sender [of audioVideo screenShare aliceAndCarol]
  from t have a: "peersRef (updateLocalStream audioVideo screenShare aliceAndCarol) =
      peersRef aliceAndCarol"
    by blast
  from t have b: "filter isDestroy (calls (updateLocalStream audioVideo screenShare aliceAndCarol)) =
      filter isDestroy (calls aliceAndCarol)"
    by blast
  from t h have c: "\<And>pc.
      length (filter (isReplaceOf ''video'') (updatePeerTracks audioVideo screenShare pc)) = 1 \<and>
      length (filter (isReplaceOf ''audio'') (updatePeerTracks audioVideo screenShare pc)) = 1"
    by simp
  show ?thesis
    using a b c ids by (simp add: list_all_iff)
qed

text \<open>
  The claim as stated fails when a connection has no sender of a kind the new stream
  brings: with microphone-only connections, the screen-share stream has a video track,
  and neither of the two sessions gets a video replacement (each gets the audio one).
  So it is for the two sessions built with a microphone-only local stream.
\<close>

theorem no_video_sender_no_video_replace:
  "getVideoTracks screenShare \<noteq> [] \<and>
   map userId (peersRef aliceAndCarol) = [''alice'', ''carol''] \<and>
   filter (isReplaceOf ''video'') (calls (updateLocalStream audioOnly screenShare aliceAndCarol))
     = [] \<and>
   filter (isReplaceOf ''audio'') (calls (updateLocalStream audioOnly screenShare aliceAndCarol))
     = [ReplaceTrack 0 \<lparr>track = Some micTrack\<rparr> micTrack,
        ReplaceTrack 1 \<lparr>track = Some micTrack\<rparr> micTrack] \<and>
   map (\<lambda>pc. (userId pc, localMedia (peer pc))) (peersRef audioSessions) =
     [(''alice'', micOnly), (''carol'', micOnly)] \<and>
   filter (isReplaceOf ''video'') (calls (updateLocalStream audioOnly screenShare audioSessions))
     = []"
  by (simp add: updateLocalStream_def updatePeerTracks_def replaceKind_def getVideoTracks_def
      getAudioTracks_def screenShare_def micTrack_def screenTrack_def audioOnly_def
      audioSessions_def
      aliceAndCarol_def handleOffer_def initializeWebRTC_def createPeer_def
      initialState_def carolOffer_def alice_def quiet_def newPeer_def peerSignal_def
      andThen_def Let_def)

end
